theory Spec2Isabelle
  imports Complex_Main
begin

text \<open>
  A model of the CSV upload route of the academic record system (the \<open>POST\<close> handler
  that follows the page renderer in \<open>src/app/routes/_renderer.tsx\<close>): \<open>parseCSV\<close> with its
  inner \<open>parseLine\<close>, the eight row validators, and the handler with one loop per upload
  type over a Prisma store. Each definition follows the source function of the same name.
\<close>

section \<open>CSV parser\<close>

text \<open>
  Strings of the program are modelled as \<^typ>\<open>string\<close>: a list of code units below 256.
  \<open>dq\<close> is the double-quote character, \<open>nl\<close> the line feed.
\<close>

abbreviation dq :: char where "dq \<equiv> CHR 0x22"
abbreviation nl :: char where "nl \<equiv> CHR 0x0A"

text \<open>
  \<open>String.prototype.trim\<close> removes white space and line terminators at both ends.
  Below 256 these are TAB, LF, VT, FF, CR, SPACE and NBSP.
\<close>

definition is_ws :: "char \<Rightarrow> bool" where
  "is_ws c = (c = CHR 0x09 \<or> c = CHR 0x0A \<or> c = CHR 0x0B \<or> c = CHR 0x0C \<or> c = CHR 0x0D
              \<or> c = CHR 0x20 \<or> c = CHR 0xA0)"

definition trim :: "string \<Rightarrow> string" where
  "trim s = rev (dropWhile is_ws (rev (dropWhile is_ws s)))"

text \<open>\<open>s.split(sep)\<close> for a one-character separator: never empty, \<open>"".split(sep) = [""]\<close>.\<close>

fun split_on :: "char \<Rightarrow> string \<Rightarrow> string list" where
  "split_on sep [] = [[]]"
| "split_on sep (c # cs) =
     (if c = sep then [] # split_on sep cs
      else (case split_on sep cs of
              [] \<Rightarrow> [[c]]
            | l # ls \<Rightarrow> (c # l) # ls))"

text \<open>
  The loop of \<open>parseLine\<close>: \<open>line\<close> is what remains from index \<open>i\<close> on. An escaped quote
  (a quote inside quotes followed by a quote) adds one quote and skips the next character.
\<close>

fun parseLine_loop :: "string \<Rightarrow> string \<Rightarrow> bool \<Rightarrow> string list \<Rightarrow> string list" where
  "parseLine_loop [] current inQuotes result = result @ [trim current]"
| "parseLine_loop (c # rest) current inQuotes result =
     (if c = dq then
        (case rest of
           d # rest' \<Rightarrow>
             if inQuotes \<and> d = dq then parseLine_loop rest' (current @ [dq]) inQuotes result
             else parseLine_loop rest current (\<not> inQuotes) result
         | [] \<Rightarrow> parseLine_loop rest current (\<not> inQuotes) result)
      else if c = CHR '','' \<and> \<not> inQuotes then parseLine_loop rest [] inQuotes (result @ [trim current])
      else parseLine_loop rest (current @ [c]) inQuotes result)"

definition parseLine :: "string \<Rightarrow> string list" where
  "parseLine line = parseLine_loop line [] False []"

text \<open>\<open>h.replace(/"/g, '')\<close>: every double quote is removed.\<close>

definition remove_quotes :: "string \<Rightarrow> string" where
  "remove_quotes h = filter (\<lambda>c. c \<noteq> dq) h"

text \<open>\<open>v.replace(/^"|"$/g, '')\<close>: a quote at the start and a quote at the end are removed.\<close>

definition strip_quotes :: "string \<Rightarrow> string" where
  "strip_quotes v =
     (let v1 = (case v of c # cs \<Rightarrow> if c = dq then cs else v | [] \<Rightarrow> v)
      in if v1 \<noteq> [] \<and> last v1 = dq then butlast v1 else v1)"

text \<open>
  A row is the object built by \<open>row[header] = value\<close>: a map from the header names to a
  string or \<open>null\<close> (\<open>None\<close>). A later assignment to the same header overwrites an earlier one.
  Header names are taken to be ordinary property names (not \<open>__proto__\<close>, whose
  assignment does not create a property).
\<close>

type_synonym row = "string \<rightharpoonup> string option"

fun assign_fields :: "string list \<Rightarrow> string list \<Rightarrow> row \<Rightarrow> row" where
  "assign_fields (h # hs) (v # vs) r = assign_fields hs vs (r(h \<mapsto> (if v = [] then None else Some v)))"
| "assign_fields hs vs r = r"

fun rows_loop :: "string list \<Rightarrow> string list \<Rightarrow> row list" where
  "rows_loop headers [] = []"
| "rows_loop headers (line # lines) =
     (let values = map strip_quotes (parseLine line)
      in if length values = length headers
         then assign_fields headers values Map.empty # rows_loop headers lines
         else rows_loop headers lines)"

definition csv_lines :: "string \<Rightarrow> string list" where
  "csv_lines csvText = split_on nl (trim csvText)"

definition csv_headers :: "string \<Rightarrow> string list" where
  "csv_headers csvText = map remove_quotes (parseLine (hd (csv_lines csvText)))"

definition parseCSV :: "string \<Rightarrow> row list" where
  "parseCSV csvText =
     (if length (csv_lines csvText) < 2 then []
      else rows_loop (csv_headers csvText) (tl (csv_lines csvText)))"


section \<open>Builtins of the language\<close>

text \<open>
  A falsy string-or-null value is \<open>null\<close>/\<open>undefined\<close> (\<open>None\<close>) or the empty string.
\<close>

definition truthy :: "string option \<Rightarrow> bool" where
  "truthy v = (case v of None \<Rightarrow> False | Some s \<Rightarrow> s \<noteq> [])"

text \<open>
  \<open>present row k\<close> is the truth value of \<open>row.k\<close>; \<open>str row k\<close> is \<open>row.k\<close> where it is a
  string (the handler reads it after the check); \<open>opt row k\<close> is \<open>row.k || null\<close>.
\<close>

definition present :: "row \<Rightarrow> string \<Rightarrow> bool" where
  "present r k = (case r k of Some (Some v) \<Rightarrow> v \<noteq> [] | _ \<Rightarrow> False)"

definition str :: "row \<Rightarrow> string \<Rightarrow> string" where
  "str r k = (case r k of Some (Some v) \<Rightarrow> v | _ \<Rightarrow> [])"

definition opt :: "row \<Rightarrow> string \<Rightarrow> string option" where
  "opt r k = (if present r k then Some (str r k) else None)"

definition or_default :: "string option \<Rightarrow> string \<Rightarrow> string" where
  "or_default v dflt = (if truthy v then (case v of Some s \<Rightarrow> s | None \<Rightarrow> dflt) else dflt)"

definition is_digit :: "char \<Rightarrow> bool" where
  "is_digit c = (48 \<le> (of_char c :: nat) \<and> (of_char c :: nat) \<le> 57)"

definition is_upper :: "char \<Rightarrow> bool" where
  "is_upper c = (65 \<le> (of_char c :: nat) \<and> (of_char c :: nat) \<le> 90)"

definition digit_value :: "char \<Rightarrow> nat option" where
  "digit_value c =
     (let n = (of_char c :: nat) in
      if 48 \<le> n \<and> n \<le> 57 then Some (n - 48)
      else if 97 \<le> n \<and> n \<le> 122 then Some (n - 87)
      else if 65 \<le> n \<and> n \<le> 90 then Some (n - 55)
      else None)"

definition is_radix_digit :: "nat \<Rightarrow> char \<Rightarrow> bool" where
  "is_radix_digit R c = (case digit_value c of None \<Rightarrow> False | Some v \<Rightarrow> v < R)"

definition radix_value :: "nat \<Rightarrow> string \<Rightarrow> nat" where
  "radix_value R ds = foldl (\<lambda>acc c. acc * R + (case digit_value c of None \<Rightarrow> 0 | Some v \<Rightarrow> v)) 0 ds"

definition strip_sign :: "string \<Rightarrow> bool \<times> string" where
  "strip_sign s =
     (case s of
        [] \<Rightarrow> (False, s)
      | c # cs \<Rightarrow> if c = CHR ''-'' then (True, cs) else if c = CHR ''+'' then (False, cs) else (False, s))"

text \<open>
  \<open>parseInt(s)\<close> with no radix: leading white space, a sign, a \<open>0x\<close>/\<open>0X\<close> prefix for
  radix 16, then the longest run of digits; \<open>NaN\<close> (\<open>None\<close>) when that run is empty. The
  result is the exact integer (the program's Number equals it up to \<open>2^53\<close>).
\<close>

definition parseInt :: "string \<Rightarrow> int option" where
  "parseInt s =
     (let (neg, s2) = strip_sign (dropWhile is_ws s);
          hex = (take 2 s2 = ''0x'' \<or> take 2 s2 = ''0X'');
          R = (if hex then 16 else 10);
          s3 = (if hex then drop 2 s2 else s2);
          Z = takeWhile (is_radix_digit R) s3
      in if Z = [] then None
         else Some (if neg then - int (radix_value R Z) else int (radix_value R Z)))"

text \<open>
  A Number produced by \<open>parseFloat\<close>, and a Date object. \<open>new Date(string)\<close> and
  \<open>parseFloat\<close> are builtins of the runtime: the handler is modelled for any such pair.
\<close>

datatype jsnum = NaN | PosInfinity | NegInfinity | Finite rat

datatype jsdate = InvalidDate | Date int

definition isNaN :: "jsnum \<Rightarrow> bool" where
  "isNaN x = (x = NaN)"

definition num_less :: "jsnum \<Rightarrow> rat \<Rightarrow> bool" where
  "num_less x b = (case x of Finite q \<Rightarrow> q < b | NegInfinity \<Rightarrow> True | _ \<Rightarrow> False)"

definition num_greater :: "jsnum \<Rightarrow> rat \<Rightarrow> bool" where
  "num_greater x b = (case x of Finite q \<Rightarrow> q > b | PosInfinity \<Rightarrow> True | _ \<Rightarrow> False)"

record builtins =
  newDate :: "string \<Rightarrow> jsdate"
  parseFloat :: "string \<Rightarrow> jsnum"

text \<open>\<open>String(n)\<close> for a natural number, as template literals print \<open>processed + 1\<close>.\<close>

fun show_nat :: "nat \<Rightarrow> string" where
  "show_nat n =
     (if n < 10 then [char_of (48 + n)]
      else show_nat (n div 10) @ [char_of (48 + n mod 10)])"

declare show_nat.simps [simp del]

section \<open>Row validators\<close>

definition validateStudentRow :: "row \<Rightarrow> string option" where
  "validateStudentRow r =
     (if \<not> present r ''studentId'' then Some ''Missing studentId''
      else if \<not> present r ''name'' then Some ''Missing name''
      else if \<not> present r ''email'' then Some ''Missing email''
      else if \<not> present r ''dob'' then Some ''Missing dob''
      else if \<not> present r ''currentSemester'' then Some ''Missing currentSemester''
      else None)"

definition validateAttendanceRow :: "row \<Rightarrow> string option" where
  "validateAttendanceRow r =
     (if \<not> present r ''studentId'' then Some ''Missing studentId''
      else if \<not> present r ''courseId'' then Some ''Missing courseId''
      else if \<not> present r ''month'' then Some ''Missing month''
      else if \<not> present r ''attendancePercent'' then Some ''Missing attendancePercent''
      else None)"

definition validateTestScoreRow :: "row \<Rightarrow> string option" where
  "validateTestScoreRow r =
     (if \<not> present r ''studentId'' then Some ''Missing studentId''
      else if \<not> present r ''courseId'' then Some ''Missing courseId''
      else if \<not> present r ''testDate'' then Some ''Missing testDate''
      else if \<not> present r ''score'' then Some ''Missing score''
      else None)"

definition validateBacklogRow :: "row \<Rightarrow> string option" where
  "validateBacklogRow r =
     (if \<not> present r ''studentId'' then Some ''Missing studentId''
      else if \<not> present r ''courseId'' then Some ''Missing courseId''
      else if \<not> present r ''attempts'' then Some ''Missing attempts''
      else (case r ''cleared'' of
              Some (Some v) \<Rightarrow> None
            | _ \<Rightarrow> Some ''Missing cleared field''))"

definition validateFeeRow :: "row \<Rightarrow> string option" where
  "validateFeeRow r =
     (if \<not> present r ''studentId'' then Some ''Missing studentId''
      else if \<not> present r ''dueDate'' then Some ''Missing dueDate''
      else if \<not> present r ''status'' then Some ''Missing status''
      else if \<not> present r ''dueMonths'' then Some ''Missing dueMonths''
      else None)"

definition validateProjectRow :: "row \<Rightarrow> string option" where
  "validateProjectRow r =
     (if \<not> present r ''studentId'' then Some ''Missing studentId''
      else if \<not> present r ''title'' then Some ''Missing title''
      else if \<not> present r ''startDate'' then Some ''Missing startDate''
      else None)"

definition validatePhdRow :: "row \<Rightarrow> string option" where
  "validatePhdRow r =
     (if \<not> present r ''studentId'' then Some ''Missing studentId''
      else if \<not> present r ''title'' then Some ''Missing title''
      else if \<not> present r ''researchArea'' then Some ''Missing researchArea''
      else if \<not> present r ''startDate'' then Some ''Missing startDate''
      else None)"

definition validateFellowshipRow :: "row \<Rightarrow> string option" where
  "validateFellowshipRow r =
     (if \<not> present r ''studentId'' then Some ''Missing studentId''
      else if \<not> present r ''type'' then Some ''Missing type''
      else if \<not> present r ''amount'' then Some ''Missing amount''
      else if \<not> present r ''duration'' then Some ''Missing duration''
      else if \<not> present r ''startDate'' then Some ''Missing startDate''
      else None)"


section \<open>The store behind the persistence gateway\<close>

text \<open>
  One table per Prisma model. Students, courses and batches are looked up by their unique
  key (\<open>findUnique\<close>); the other tables are append-only lists, a record's id being its
  position, and \<open>findFirst\<close> returns the first record that matches.
\<close>

record student =
  st_name :: string
  st_email :: string
  st_phone :: "string option"
  st_dob :: int
  st_department :: "string option"
  st_currentSemester :: int
  st_batchId :: "string option"
  st_teacherId :: "string option"
  st_parentName :: "string option"
  st_parentEmail :: "string option"
  st_parentPhone :: "string option"
  st_address :: "string option"

record courseSubject =
  cs_name :: string
  cs_code :: string
  cs_semester :: int
  cs_department :: string

record batch =
  b_batchNo :: string
  b_courseId :: string
  b_year :: "int option"
  b_department :: string

record attendance =
  at_studentId :: string
  at_courseId :: string
  at_month :: int
  at_attendancePercent :: jsnum

record testScore =
  ts_studentId :: string
  ts_courseId :: string
  ts_testDate :: int
  ts_score :: jsnum

record backlog =
  bl_studentId :: string
  bl_courseId :: string
  bl_attempts :: int
  bl_cleared :: bool

record feePayment =
  fp_studentId :: string
  fp_dueDate :: int
  fp_paidDate :: "int option"
  fp_status :: string
  fp_dueMonths :: int

record project =
  pj_title :: string
  pj_description :: "string option"
  pj_studentId :: string
  pj_supervisorId :: string
  pj_startDate :: jsdate
  pj_endDate :: "jsdate option"
  pj_status :: string

record phdSupervision =
  ph_title :: string
  ph_researchArea :: string
  ph_studentId :: string
  ph_supervisorId :: string
  ph_startDate :: jsdate
  ph_expectedEnd :: "jsdate option"
  ph_status :: string

record fellowship =
  fw_type :: string
  fw_amount :: jsnum
  fw_duration :: "int option"
  fw_studentId :: string
  fw_supervisorId :: string
  fw_startDate :: jsdate
  fw_endDate :: "jsdate option"
  fw_status :: string

record db =
  students :: "string \<rightharpoonup> student"
  courses :: "string \<rightharpoonup> courseSubject"
  batches :: "string \<rightharpoonup> batch"
  attendances :: "attendance list"
  testScores :: "testScore list"
  backlogs :: "backlog list"
  feePayments :: "feePayment list"
  projects :: "project list"
  phdSupervisions :: "phdSupervision list"
  fellowships :: "fellowship list"

text \<open>
  Every call of the gateway may throw. A gateway is described by which calls throw, and
  with which message: \<open>gw i op = Some m\<close> says that the call \<open>op\<close> made for the row at
  index \<open>i\<close> (from 0) throws an error with message \<open>m\<close> and leaves the store as it was. A row
  makes each kind of call at most once.
\<close>

datatype dbop =
    FindBatch | CreateBatch | FindCourse | CreateCourse
  | FindStudent | UpdateStudent | CreateStudent
  | FindAttendance | UpdateAttendance | CreateAttendance
  | CreateTestScore
  | FindBacklog | UpdateBacklog | CreateBacklog
  | CreateFeePayment | CreateProject | CreatePhdSupervision | CreateFellowship

type_synonym gateway = "nat \<Rightarrow> dbop \<Rightarrow> string option"

text \<open>\<open>findFirst\<close>: the position of the first record that satisfies the filter.\<close>

fun findFirst :: "('a \<Rightarrow> bool) \<Rightarrow> 'a list \<Rightarrow> nat option" where
  "findFirst P [] = None"
| "findFirst P (x # xs) =
     (if P x then Some 0 else (case findFirst P xs of None \<Rightarrow> None | Some k \<Rightarrow> Some (Suc k)))"

section \<open>The upload handler\<close>

text \<open>
  What one pass of a loop body does: the store it leaves, the reasons it pushes to
  \<open>errors\<close> (each printed after \<open>Row ${processed + 1}: \<close>), and whether it reaches
  \<open>processed++\<close>. \<open>skipped\<close> is \<open>errors.push(...); continue\<close>, \<open>thrown\<close> is an exception
  caught by the row's \<open>catch\<close>, \<open>completed\<close> is the end of the \<open>try\<close> block.
\<close>

type_synonym pass = "db \<times> string list \<times> bool"

definition skipped :: "db \<Rightarrow> string \<Rightarrow> pass" where
  "skipped d reason = (d, [reason], False)"

definition thrown :: "db \<Rightarrow> string \<Rightarrow> pass" where
  "thrown d message = (d, [''Database error - '' @ message], False)"

definition completed :: "db \<Rightarrow> pass" where
  "completed d = (d, [], True)"

text \<open>
  The check-then-create of a course used by the attendance, test score and backlog loops:
  the placeholder takes the student's department, or \<open>General\<close>.
\<close>

definition placeholder_course :: "string \<Rightarrow> student \<Rightarrow> courseSubject" where
  "placeholder_course courseId st =
     \<lparr>cs_name = ''Course '' @ courseId, cs_code = courseId, cs_semester = 1,
      cs_department = or_default (st_department st) ''General''\<rparr>"

definition ensure_course :: "gateway \<Rightarrow> nat \<Rightarrow> string \<Rightarrow> student \<Rightarrow> db \<Rightarrow> string + db" where
  "ensure_course gw i courseId st d =
     (case gw i FindCourse of
        Some m \<Rightarrow> Inl m
      | None \<Rightarrow>
          (case courses d courseId of
             Some course \<Rightarrow> Inr d
           | None \<Rightarrow>
               (case gw i CreateCourse of
                  Some m \<Rightarrow> Inl m
                | None \<Rightarrow> Inr (d\<lparr>courses := (courses d)(courseId \<mapsto> placeholder_course courseId st)\<rparr>))))"

subsection \<open>students\<close>

text \<open>\<open>batchId.match(/^([A-Z]+)(\d{4})([A-Z])$/)\<close>: department, year digits, section.\<close>

definition match_batchId :: "string \<Rightarrow> (string \<times> string \<times> string) option" where
  "match_batchId s =
     (let dept = takeWhile is_upper s; r = dropWhile is_upper s
      in if dept \<noteq> [] \<and> length r = 5 \<and> list_all is_digit (take 4 r) \<and> is_upper (r ! 4)
         then Some (dept, take 4 r, [r ! 4]) else None)"

text \<open>
  The inner \<open>try\<close> of the students loop. It returns the store, \<open>finalBatchId\<close> and the
  reason pushed by the inner \<open>catch\<close>, if any.
\<close>

definition resolve_batch :: "gateway \<Rightarrow> nat \<Rightarrow> row \<Rightarrow> db \<Rightarrow> db \<times> string option \<times> string list" where
  "resolve_batch gw i r d =
     (if \<not> present r ''batchId'' then (d, None, [])
      else
        let batchId = str r ''batchId'';
            failed = (\<lambda>d' m. (d', None, [''Could not create/find batch '' @ batchId @ '': '' @ m]))
        in case gw i FindBatch of
             Some m \<Rightarrow> failed d m
           | None \<Rightarrow>
               (case batches d batchId of
                  Some b \<Rightarrow> (d, Some batchId, [])
                | None \<Rightarrow>
                    (case match_batchId batchId of
                       None \<Rightarrow> (d, None, [])
                     | Some (dept, yearStr, section) \<Rightarrow>
                         let defaultCourseId = dept @ ''_GENERAL'' in
                         (case gw i FindCourse of
                            Some m \<Rightarrow> failed d m
                          | None \<Rightarrow>
                              (case (case courses d defaultCourseId of
                                       Some c \<Rightarrow> Inr d
                                     | None \<Rightarrow>
                                         (case gw i CreateCourse of
                                            Some m \<Rightarrow> Inl m
                                          | None \<Rightarrow>
                                              Inr (d\<lparr>courses := (courses d)(defaultCourseId \<mapsto>
                                                     \<lparr>cs_name = dept @ '' General Course'',
                                                      cs_code = defaultCourseId, cs_semester = 1,
                                                      cs_department = dept\<rparr>)\<rparr>))) of
                                 Inl m \<Rightarrow> failed d m
                               | Inr d1 \<Rightarrow>
                                   (case gw i CreateBatch of
                                      Some m \<Rightarrow> failed d1 m
                                    | None \<Rightarrow>
                                        (d1\<lparr>batches := (batches d1)(batchId \<mapsto>
                                              \<lparr>b_batchNo = section, b_courseId = defaultCourseId,
                                               b_year = parseInt yearStr, b_department = dept\<rparr>)\<rparr>,
                                         Some batchId, [])))))))"

text \<open>
  The upsert of the student. An existing student with no teacher gets all fields and the
  uploading teacher; one with a teacher gets all fields but \<open>teacherId\<close>.
\<close>

definition upsert_student ::
  "gateway \<Rightarrow> string \<Rightarrow> nat \<Rightarrow> row \<Rightarrow> int \<Rightarrow> int \<Rightarrow> string option \<Rightarrow> db \<Rightarrow> string + db" where
  "upsert_student gw teacherId i r dobDate semester finalBatchId d =
     (let studentId = str r ''studentId'' in
      case gw i FindStudent of
        Some m \<Rightarrow> Inl m
      | None \<Rightarrow>
          (case students d studentId of
             Some existingStudent \<Rightarrow>
               (case gw i UpdateStudent of
                  Some m \<Rightarrow> Inl m
                | None \<Rightarrow>
                    let updated = existingStudent
                          \<lparr>st_name := str r ''name'', st_email := str r ''email'',
                           st_phone := opt r ''phone'', st_dob := dobDate,
                           st_department := opt r ''department'', st_currentSemester := semester,
                           st_batchId := finalBatchId,
                           st_parentName := opt r ''parentName'',
                           st_parentEmail := opt r ''parentEmail'',
                           st_parentPhone := opt r ''parentPhone'',
                           st_address := opt r ''address''\<rparr>
                    in if \<not> truthy (st_teacherId existingStudent)
                       then Inr (d\<lparr>students := (students d)(studentId \<mapsto>
                                   updated\<lparr>st_teacherId := Some teacherId\<rparr>)\<rparr>)
                       else Inr (d\<lparr>students := (students d)(studentId \<mapsto> updated)\<rparr>))
           | None \<Rightarrow>
               (case gw i CreateStudent of
                  Some m \<Rightarrow> Inl m
                | None \<Rightarrow>
                    Inr (d\<lparr>students := (students d)(studentId \<mapsto>
                          \<lparr>st_name = str r ''name'', st_email = str r ''email'',
                           st_phone = opt r ''phone'', st_dob = dobDate,
                           st_department = opt r ''department'', st_currentSemester = semester,
                           st_batchId = finalBatchId, st_teacherId = Some teacherId,
                           st_parentName = opt r ''parentName'',
                           st_parentEmail = opt r ''parentEmail'',
                           st_parentPhone = opt r ''parentPhone'',
                           st_address = opt r ''address''\<rparr>)\<rparr>))))"

definition students_pass :: "builtins \<Rightarrow> gateway \<Rightarrow> string \<Rightarrow> nat \<Rightarrow> row \<Rightarrow> db \<Rightarrow> pass" where
  "students_pass B gw teacherId i r d =
     (case validateStudentRow r of
        Some validationError \<Rightarrow> skipped d validationError
      | None \<Rightarrow>
          (case newDate B (str r ''dob'') of
             InvalidDate \<Rightarrow> skipped d (''Invalid date format for dob: '' @ str r ''dob'')
           | Date dobDate \<Rightarrow>
               (case parseInt (str r ''currentSemester'') of
                  None \<Rightarrow> skipped d (''Invalid currentSemester: '' @ str r ''currentSemester'')
                | Some semester \<Rightarrow>
                    if semester < 1 \<or> semester > 8
                    then skipped d (''Invalid currentSemester: '' @ str r ''currentSemester'')
                    else
                      (case resolve_batch gw i r d of
                         (d1, finalBatchId, batchErrors) \<Rightarrow>
                           (case upsert_student gw teacherId i r dobDate semester finalBatchId d1 of
                              Inl m \<Rightarrow> (d1, batchErrors @ [''Database error - '' @ m], False)
                            | Inr d2 \<Rightarrow> (d2, batchErrors, True))))))"


subsection \<open>attendance\<close>

text \<open>
  The month value needs a \<open>-\<close> and at least 7 characters. A value of exactly 7 characters
  is completed with \<open>-01\<close>; a longer one is given to \<open>new Date\<close> as it is.
\<close>

definition parse_month :: "builtins \<Rightarrow> string \<Rightarrow> string + int" where
  "parse_month B month =
     (if CHR ''-'' \<in> set month \<and> length month \<ge> 7 then
        (case newDate B (if length month = 7 then month @ ''-01'' else month) of
           InvalidDate \<Rightarrow> Inl (''Invalid month date: '' @ month)
         | Date monthDate \<Rightarrow> Inr monthDate)
      else Inl (''Invalid month format: '' @ month))"

definition upsert_attendance :: "gateway \<Rightarrow> nat \<Rightarrow> string \<Rightarrow> string \<Rightarrow> int \<Rightarrow> jsnum \<Rightarrow> db \<Rightarrow> pass" where
  "upsert_attendance gw i studentId courseId monthDate attendancePercent d =
     (case gw i FindAttendance of
        Some m \<Rightarrow> thrown d m
      | None \<Rightarrow>
          (case findFirst (\<lambda>a. at_studentId a = studentId \<and> at_courseId a = courseId
                                \<and> at_month a = monthDate) (attendances d) of
             Some k \<Rightarrow>
               (case gw i UpdateAttendance of
                  Some m \<Rightarrow> thrown d m
                | None \<Rightarrow>
                    completed (d\<lparr>attendances := (attendances d)
                      [k := (attendances d ! k)\<lparr>at_attendancePercent := attendancePercent\<rparr>]\<rparr>))
           | None \<Rightarrow>
               (case gw i CreateAttendance of
                  Some m \<Rightarrow> thrown d m
                | None \<Rightarrow>
                    completed (d\<lparr>attendances := attendances d @
                      [\<lparr>at_studentId = studentId, at_courseId = courseId, at_month = monthDate,
                        at_attendancePercent = attendancePercent\<rparr>]\<rparr>))))"

definition attendance_pass :: "builtins \<Rightarrow> gateway \<Rightarrow> nat \<Rightarrow> row \<Rightarrow> db \<Rightarrow> pass" where
  "attendance_pass B gw i r d =
     (case validateAttendanceRow r of
        Some validationError \<Rightarrow> skipped d validationError
      | None \<Rightarrow>
          (case gw i FindStudent of
             Some m \<Rightarrow> thrown d m
           | None \<Rightarrow>
               (case students d (str r ''studentId'') of
                  None \<Rightarrow> skipped d (''Student '' @ str r ''studentId'' @ '' not found'')
                | Some student \<Rightarrow>
                    (case ensure_course gw i (str r ''courseId'') student d of
                       Inl m \<Rightarrow> thrown d m
                     | Inr d1 \<Rightarrow>
                         (case parse_month B (str r ''month'') of
                            Inl reason \<Rightarrow> skipped d1 reason
                          | Inr monthDate \<Rightarrow>
                              let attendancePercent = parseFloat B (str r ''attendancePercent'') in
                              if isNaN attendancePercent \<or> num_less attendancePercent 0
                                 \<or> num_greater attendancePercent 100
                              then skipped d1 (''Invalid attendance percentage: ''
                                                @ str r ''attendancePercent'')
                              else upsert_attendance gw i (str r ''studentId'') (str r ''courseId'')
                                     monthDate attendancePercent d1)))))"

subsection \<open>testscores\<close>

definition testscores_pass :: "builtins \<Rightarrow> gateway \<Rightarrow> nat \<Rightarrow> row \<Rightarrow> db \<Rightarrow> pass" where
  "testscores_pass B gw i r d =
     (case validateTestScoreRow r of
        Some validationError \<Rightarrow> skipped d validationError
      | None \<Rightarrow>
          (case gw i FindStudent of
             Some m \<Rightarrow> thrown d m
           | None \<Rightarrow>
               (case students d (str r ''studentId'') of
                  None \<Rightarrow> skipped d (''Student '' @ str r ''studentId'' @ '' not found'')
                | Some student \<Rightarrow>
                    (case ensure_course gw i (str r ''courseId'') student d of
                       Inl m \<Rightarrow> thrown d m
                     | Inr d1 \<Rightarrow>
                         (case newDate B (str r ''testDate'') of
                            InvalidDate \<Rightarrow> skipped d1 (''Invalid test date: '' @ str r ''testDate'')
                          | Date testDate \<Rightarrow>
                              let score = parseFloat B (str r ''score'') in
                              if isNaN score \<or> num_less score 0 \<or> num_greater score 100
                              then skipped d1 (''Invalid score: '' @ str r ''score'')
                              else
                                (case gw i CreateTestScore of
                                   Some m \<Rightarrow> thrown d1 m
                                 | None \<Rightarrow>
                                     completed (d1\<lparr>testScores := testScores d1 @
                                       [\<lparr>ts_studentId = str r ''studentId'',
                                         ts_courseId = str r ''courseId'',
                                         ts_testDate = testDate, ts_score = score\<rparr>]\<rparr>)))))))"

subsection \<open>backlogs\<close>

definition parse_cleared :: "string \<Rightarrow> bool" where
  "parse_cleared c = (c = ''true'' \<or> c = ''1'' \<or> c = ''TRUE'' \<or> c = ''True'')"

definition upsert_backlog :: "gateway \<Rightarrow> nat \<Rightarrow> string \<Rightarrow> string \<Rightarrow> int \<Rightarrow> bool \<Rightarrow> db \<Rightarrow> pass" where
  "upsert_backlog gw i studentId courseId attempts cleared d =
     (case gw i FindBacklog of
        Some m \<Rightarrow> thrown d m
      | None \<Rightarrow>
          (case findFirst (\<lambda>b. bl_studentId b = studentId \<and> bl_courseId b = courseId) (backlogs d) of
             Some k \<Rightarrow>
               (case gw i UpdateBacklog of
                  Some m \<Rightarrow> thrown d m
                | None \<Rightarrow>
                    completed (d\<lparr>backlogs := (backlogs d)
                      [k := (backlogs d ! k)\<lparr>bl_attempts := attempts, bl_cleared := cleared\<rparr>]\<rparr>))
           | None \<Rightarrow>
               (case gw i CreateBacklog of
                  Some m \<Rightarrow> thrown d m
                | None \<Rightarrow>
                    completed (d\<lparr>backlogs := backlogs d @
                      [\<lparr>bl_studentId = studentId, bl_courseId = courseId, bl_attempts = attempts,
                        bl_cleared = cleared\<rparr>]\<rparr>))))"

definition backlogs_pass :: "gateway \<Rightarrow> nat \<Rightarrow> row \<Rightarrow> db \<Rightarrow> pass" where
  "backlogs_pass gw i r d =
     (case validateBacklogRow r of
        Some validationError \<Rightarrow> skipped d validationError
      | None \<Rightarrow>
          (case gw i FindStudent of
             Some m \<Rightarrow> thrown d m
           | None \<Rightarrow>
               (case students d (str r ''studentId'') of
                  None \<Rightarrow> skipped d (''Student '' @ str r ''studentId'' @ '' not found'')
                | Some student \<Rightarrow>
                    (case ensure_course gw i (str r ''courseId'') student d of
                       Inl m \<Rightarrow> thrown d m
                     | Inr d1 \<Rightarrow>
                         (case parseInt (str r ''attempts'') of
                            None \<Rightarrow> skipped d1 (''Invalid attempts: '' @ str r ''attempts'')
                          | Some attempts \<Rightarrow>
                              if attempts < 1
                              then skipped d1 (''Invalid attempts: '' @ str r ''attempts'')
                              else upsert_backlog gw i (str r ''studentId'') (str r ''courseId'')
                                     attempts (parse_cleared (str r ''cleared'')) d1)))))"

subsection \<open>fees\<close>

definition fees_pass :: "builtins \<Rightarrow> gateway \<Rightarrow> nat \<Rightarrow> row \<Rightarrow> db \<Rightarrow> pass" where
  "fees_pass B gw i r d =
     (case validateFeeRow r of
        Some validationError \<Rightarrow> skipped d validationError
      | None \<Rightarrow>
          (case gw i FindStudent of
             Some m \<Rightarrow> thrown d m
           | None \<Rightarrow>
               (case students d (str r ''studentId'') of
                  None \<Rightarrow> skipped d (''Student '' @ str r ''studentId'' @ '' not found'')
                | Some student \<Rightarrow>
                    (case newDate B (str r ''dueDate'') of
                       InvalidDate \<Rightarrow> skipped d (''Invalid due date: '' @ str r ''dueDate'')
                     | Date dueDate \<Rightarrow>
                         (case (if present r ''paidDate''
                                then (case newDate B (str r ''paidDate'') of
                                        InvalidDate \<Rightarrow> Inl (''Invalid paid date: '' @ str r ''paidDate'')
                                      | Date p \<Rightarrow> Inr (Some p))
                                else Inr None) of
                            Inl reason \<Rightarrow> skipped d reason
                          | Inr paidDate \<Rightarrow>
                              (case parseInt (str r ''dueMonths'') of
                                 None \<Rightarrow> skipped d (''Invalid due months: '' @ str r ''dueMonths'')
                               | Some dueMonths \<Rightarrow>
                                   if dueMonths < 1
                                   then skipped d (''Invalid due months: '' @ str r ''dueMonths'')
                                   else
                                     (case gw i CreateFeePayment of
                                        Some m \<Rightarrow> thrown d m
                                      | None \<Rightarrow>
                                          completed (d\<lparr>feePayments := feePayments d @
                                            [\<lparr>fp_studentId = str r ''studentId'', fp_dueDate = dueDate,
                                              fp_paidDate = paidDate, fp_status = str r ''status'',
                                              fp_dueMonths = dueMonths\<rparr>]\<rparr>))))))))"

subsection \<open>projects, phd, fellowships\<close>

text \<open>\<open>row.k ? new Date(row.k) : null\<close>\<close>

definition opt_date :: "builtins \<Rightarrow> row \<Rightarrow> string \<Rightarrow> jsdate option" where
  "opt_date B r k = (if present r k then Some (newDate B (str r k)) else None)"

definition projects_pass :: "builtins \<Rightarrow> gateway \<Rightarrow> string \<Rightarrow> nat \<Rightarrow> row \<Rightarrow> db \<Rightarrow> pass" where
  "projects_pass B gw teacherId i r d =
     (case validateProjectRow r of
        Some validationError \<Rightarrow> skipped d validationError
      | None \<Rightarrow>
          (case gw i FindStudent of
             Some m \<Rightarrow> thrown d m
           | None \<Rightarrow>
               (case students d (str r ''studentId'') of
                  None \<Rightarrow> skipped d (''Student '' @ str r ''studentId'' @ '' not found'')
                | Some student \<Rightarrow>
                    (case gw i CreateProject of
                       Some m \<Rightarrow> thrown d m
                     | None \<Rightarrow>
                         completed (d\<lparr>projects := projects d @
                           [\<lparr>pj_title = str r ''title'', pj_description = opt r ''description'',
                             pj_studentId = str r ''studentId'', pj_supervisorId = teacherId,
                             pj_startDate = newDate B (str r ''startDate''),
                             pj_endDate = opt_date B r ''endDate'',
                             pj_status = or_default (opt r ''status'') ''Active''\<rparr>]\<rparr>)))))"

definition phd_pass :: "builtins \<Rightarrow> gateway \<Rightarrow> string \<Rightarrow> nat \<Rightarrow> row \<Rightarrow> db \<Rightarrow> pass" where
  "phd_pass B gw teacherId i r d =
     (case validatePhdRow r of
        Some validationError \<Rightarrow> skipped d validationError
      | None \<Rightarrow>
          (case gw i FindStudent of
             Some m \<Rightarrow> thrown d m
           | None \<Rightarrow>
               (case students d (str r ''studentId'') of
                  None \<Rightarrow> skipped d (''Student '' @ str r ''studentId'' @ '' not found'')
                | Some student \<Rightarrow>
                    (case gw i CreatePhdSupervision of
                       Some m \<Rightarrow> thrown d m
                     | None \<Rightarrow>
                         completed (d\<lparr>phdSupervisions := phdSupervisions d @
                           [\<lparr>ph_title = str r ''title'', ph_researchArea = str r ''researchArea'',
                             ph_studentId = str r ''studentId'', ph_supervisorId = teacherId,
                             ph_startDate = newDate B (str r ''startDate''),
                             ph_expectedEnd = opt_date B r ''expectedEnd'',
                             ph_status = or_default (opt r ''status'') ''Ongoing''\<rparr>]\<rparr>)))))"

definition fellowships_pass :: "builtins \<Rightarrow> gateway \<Rightarrow> string \<Rightarrow> nat \<Rightarrow> row \<Rightarrow> db \<Rightarrow> pass" where
  "fellowships_pass B gw teacherId i r d =
     (case validateFellowshipRow r of
        Some validationError \<Rightarrow> skipped d validationError
      | None \<Rightarrow>
          (case gw i FindStudent of
             Some m \<Rightarrow> thrown d m
           | None \<Rightarrow>
               (case students d (str r ''studentId'') of
                  None \<Rightarrow> skipped d (''Student '' @ str r ''studentId'' @ '' not found'')
                | Some student \<Rightarrow>
                    (case gw i CreateFellowship of
                       Some m \<Rightarrow> thrown d m
                     | None \<Rightarrow>
                         completed (d\<lparr>fellowships := fellowships d @
                           [\<lparr>fw_type = str r ''type'', fw_amount = parseFloat B (str r ''amount''),
                             fw_duration = parseInt (str r ''duration''),
                             fw_studentId = str r ''studentId'', fw_supervisorId = teacherId,
                             fw_startDate = newDate B (str r ''startDate''),
                             fw_endDate = opt_date B r ''endDate'',
                             fw_status = or_default (opt r ''status'') ''Active''\<rparr>]\<rparr>)))))"

subsection \<open>The loops and the response\<close>

text \<open>
  The state of a loop: the store, \<open>errors\<close> and \<open>processed\<close>. Every reason a pass pushes is
  printed with the value \<open>processed\<close> has during that pass.
\<close>

record progress =
  store :: db
  errors :: "string list"
  processed :: nat

definition row_message :: "nat \<Rightarrow> string \<Rightarrow> string" where
  "row_message processedCount reason = ''Row '' @ show_nat (processedCount + 1) @ '': '' @ reason"

definition step :: "(nat \<Rightarrow> row \<Rightarrow> db \<Rightarrow> pass) \<Rightarrow> nat \<Rightarrow> row \<Rightarrow> progress \<Rightarrow> progress" where
  "step body i r p =
     (case body i r (store p) of
        (d, reasons, ok) \<Rightarrow>
          \<lparr>store = d, errors = errors p @ map (row_message (processed p)) reasons,
           processed = (if ok then processed p + 1 else processed p)\<rparr>)"

fun for_rows :: "(nat \<Rightarrow> row \<Rightarrow> db \<Rightarrow> pass) \<Rightarrow> nat \<Rightarrow> row list \<Rightarrow> progress \<Rightarrow> progress" where
  "for_rows body i [] p = p"
| "for_rows body i (r # rs) p = for_rows body (Suc i) rs (step body i r p)"

text \<open>The \<open>switch\<close> on the upload type: the loop body of the type, if there is one.\<close>

definition body_of :: "builtins \<Rightarrow> gateway \<Rightarrow> string \<Rightarrow> string \<Rightarrow> (nat \<Rightarrow> row \<Rightarrow> db \<Rightarrow> pass) option" where
  "body_of B gw teacherId type =
     (if type = ''students'' then Some (students_pass B gw teacherId)
      else if type = ''attendance'' then Some (attendance_pass B gw)
      else if type = ''testscores'' then Some (testscores_pass B gw)
      else if type = ''backlogs'' then Some (backlogs_pass gw)
      else if type = ''fees'' then Some (fees_pass B gw)
      else if type = ''projects'' then Some (projects_pass B gw teacherId)
      else if type = ''phd'' then Some (phd_pass B gw teacherId)
      else if type = ''fellowships'' then Some (fellowships_pass B gw teacherId)
      else None)"

text \<open>
  The validator the loop of each type calls first, the types other than \<open>students\<close>, and
  those of them whose loop looks the course up.
\<close>

definition validator_of :: "string \<Rightarrow> row \<Rightarrow> string option" where
  "validator_of type =
     (if type = ''students'' then validateStudentRow
      else if type = ''attendance'' then validateAttendanceRow
      else if type = ''testscores'' then validateTestScoreRow
      else if type = ''backlogs'' then validateBacklogRow
      else if type = ''fees'' then validateFeeRow
      else if type = ''projects'' then validateProjectRow
      else if type = ''phd'' then validatePhdRow
      else if type = ''fellowships'' then validateFellowshipRow
      else (\<lambda>r. None))"

definition non_student_types :: "string list" where
  "non_student_types =
     [''attendance'', ''testscores'', ''backlogs'', ''fees'', ''projects'', ''phd'', ''fellowships'']"

definition course_types :: "string list" where
  "course_types = [''attendance'', ''testscores'', ''backlogs'']"

datatype response =
    Error_response nat string
  | Success_response nat nat "string list"

text \<open>
  The handler, from the decoded \<open>uid\<close> cookie, the text of the \<open>file\<close> field and the \<open>type\<close>
  field (each \<open>None\<close> when absent) and the store; it returns the JSON response (with the
  status for an error; \<open>processed\<close>, \<open>total\<close> and \<open>errors\<close> for a success) and the store.
\<close>

definition POST ::
  "builtins \<Rightarrow> gateway \<Rightarrow> string option \<Rightarrow> string option \<Rightarrow> string option \<Rightarrow> db \<Rightarrow> response \<times> db" where
  "POST B gw teacherId file type d =
     (if \<not> truthy teacherId then (Error_response 401 ''Authentication required'', d)
      else if file = None \<or> \<not> truthy type then (Error_response 400 ''File and type are required'', d)
      else
        let rows = parseCSV (case file of Some csvText \<Rightarrow> csvText | None \<Rightarrow> [])
        in if length rows = 0 then (Error_response 400 ''No valid data found in CSV'', d)
           else
             (case body_of B gw (or_default teacherId []) (or_default type []) of
                None \<Rightarrow> (Error_response 400 ''Invalid upload type'', d)
              | Some body \<Rightarrow>
                  let p = for_rows body 0 rows \<lparr>store = d, errors = [], processed = 0\<rparr>
                  in (Success_response (processed p) (length rows) (take 10 (errors p)), store p)))"


section \<open>A concrete runtime and store for examples\<close>

text \<open>
  \<open>iso_newDate\<close> is \<open>new Date\<close> on the date-only form \<open>YYYY-MM-DD\<close> of a real calendar day
  (midnight UTC, in milliseconds since 1970-01-01) and \<open>Invalid Date\<close> elsewhere;
  \<open>decimal_parseFloat\<close> is \<open>parseFloat\<close> before rounding to a double: the value of the
  longest prefix that is a decimal literal. The examples use them on inputs where every
  runtime agrees with them.
\<close>

definition days_from_civil :: "int \<Rightarrow> int \<Rightarrow> int \<Rightarrow> int" where
  "days_from_civil y m dd =
     (let y1 = (if m \<le> 2 then y - 1 else y);
          era = y1 div 400;
          yoe = y1 - era * 400;
          doy = (153 * (if m > 2 then m - 3 else m + 9) + 2) div 5 + dd - 1;
          doe = yoe * 365 + yoe div 4 - yoe div 100 + doy
      in era * 146097 + doe - 719468)"

definition days_in_month :: "int \<Rightarrow> int \<Rightarrow> int" where
  "days_in_month y m =
     (if m = 2 then (if y mod 4 = 0 \<and> (y mod 100 \<noteq> 0 \<or> y mod 400 = 0) then 29 else 28)
      else if m = 4 \<or> m = 6 \<or> m = 9 \<or> m = 11 then 30 else 31)"

definition iso_newDate :: "string \<Rightarrow> jsdate" where
  "iso_newDate s =
     (if length s = 10 \<and> s ! 4 = CHR ''-'' \<and> s ! 7 = CHR ''-''
         \<and> list_all is_digit (take 4 s) \<and> list_all is_digit (take 2 (drop 5 s))
         \<and> list_all is_digit (drop 8 s)
      then
        let y = int (radix_value 10 (take 4 s));
            m = int (radix_value 10 (take 2 (drop 5 s)));
            dd = int (radix_value 10 (drop 8 s))
        in if 1 \<le> m \<and> m \<le> 12 \<and> 1 \<le> dd \<and> dd \<le> days_in_month y m
           then Date (days_from_civil y m dd * 86400000) else InvalidDate
      else InvalidDate)"

definition exponent_part :: "string \<Rightarrow> int" where
  "exponent_part s =
     (case s of
        [] \<Rightarrow> 0
      | c # cs \<Rightarrow>
          if c = CHR ''e'' \<or> c = CHR ''E'' then
            (let (neg, ds) = strip_sign cs; Z = takeWhile is_digit ds
             in if Z = [] then 0
                else if neg then - int (radix_value 10 Z) else int (radix_value 10 Z))
          else 0)"

definition decimal_parseFloat :: "string \<Rightarrow> jsnum" where
  "decimal_parseFloat s =
     (let (neg, s2) = strip_sign (dropWhile is_ws s) in
      if take 8 s2 = ''Infinity'' then (if neg then NegInfinity else PosInfinity)
      else
        let ip = takeWhile is_digit s2;
            r1 = dropWhile is_digit s2;
            (fp, r2) = (case r1 of
                          [] \<Rightarrow> ([], r1)
                        | c # cs \<Rightarrow> if c = CHR ''.''
                                     then (takeWhile is_digit cs, dropWhile is_digit cs)
                                     else ([], r1))
        in if ip = [] \<and> fp = [] then NaN
           else
             let e = exponent_part r2 - int (length fp);
                 m = (of_nat (radix_value 10 (ip @ fp)) :: rat);
                 v = (if e \<ge> 0 then m * 10 ^ nat e else m / 10 ^ nat (- e))
             in Finite (if neg then - v else v))"

definition sample_builtins :: builtins where
  "sample_builtins = \<lparr>newDate = iso_newDate, parseFloat = decimal_parseFloat\<rparr>"

definition no_faults :: gateway where
  "no_faults i op = None"

definition empty_db :: db where
  "empty_db = \<lparr>students = Map.empty, courses = Map.empty, batches = Map.empty,
              attendances = [], testScores = [], backlogs = [], feePayments = [],
              projects = [], phdSupervisions = [], fellowships = []\<rparr>"

text \<open>A store with one student \<open>S1\<close>, of no department, owned by teacher \<open>T0\<close>.\<close>

definition one_student_db :: db where
  "one_student_db = empty_db\<lparr>students :=
     [''S1'' \<mapsto> \<lparr>st_name = ''Alice'', st_email = ''a@x.com'', st_phone = None, st_dob = 0,
                 st_department = None, st_currentSemester = 3, st_batchId = None,
                 st_teacherId = Some ''T0'', st_parentName = None, st_parentEmail = None,
                 st_parentPhone = None, st_address = None\<rparr>]\<rparr>"


text \<open>
  Rows as \<open>parseCSV\<close> builds them, and stores that already hold a record for their key.
  1709251200000 is 2024-03-01, 1710460800000 is 2024-03-15 (midnight UTC).
\<close>

definition attendance_row :: "string \<Rightarrow> string \<Rightarrow> row" where
  "attendance_row month percent =
     [''studentId'' \<mapsto> Some ''S1'', ''courseId'' \<mapsto> Some ''C1'', ''month'' \<mapsto> Some month,
      ''attendancePercent'' \<mapsto> Some percent]"

definition testscore_row :: row where
  "testscore_row =
     [''studentId'' \<mapsto> Some ''S1'', ''courseId'' \<mapsto> Some ''C1'',
      ''testDate'' \<mapsto> Some ''2024-03-15'', ''score'' \<mapsto> Some ''75'']"

definition backlog_row :: row where
  "backlog_row =
     [''studentId'' \<mapsto> Some ''S1'', ''courseId'' \<mapsto> Some ''C1'', ''attempts'' \<mapsto> Some ''2'',
      ''cleared'' \<mapsto> Some ''true'']"

definition student_row :: "string \<Rightarrow> string option \<Rightarrow> row" where
  "student_row studentId batchId =
     [''studentId'' \<mapsto> Some studentId, ''name'' \<mapsto> Some ''Bob'', ''email'' \<mapsto> Some ''b@x.com'',
      ''dob'' \<mapsto> Some ''2000-01-01'', ''currentSemester'' \<mapsto> Some ''3'', ''batchId'' \<mapsto> batchId]"

definition fee_row :: row where
  "fee_row =
     [''studentId'' \<mapsto> Some ''S9'', ''dueDate'' \<mapsto> Some ''2024-04-01'',
      ''status'' \<mapsto> Some ''Pending'', ''dueMonths'' \<mapsto> Some ''2'']"

definition records_db :: db where
  "records_db = one_student_db
     \<lparr>attendances := [\<lparr>at_studentId = ''S1'', at_courseId = ''C1'', at_month = 1709251200000,
                        at_attendancePercent = Finite 80\<rparr>],
      testScores := [\<lparr>ts_studentId = ''S1'', ts_courseId = ''C1'', ts_testDate = 1710460800000,
                       ts_score = Finite 75\<rparr>],
      backlogs := [\<lparr>bl_studentId = ''S1'', bl_courseId = ''C1'', bl_attempts = 1,
                     bl_cleared = False\<rparr>]\<rparr>"

text \<open>A store whose student \<open>S2\<close> has no teacher.\<close>

definition orphan_db :: db where
  "orphan_db = one_student_db\<lparr>students := (students one_student_db)
     (''S2'' \<mapsto> \<lparr>st_name = ''Bo'', st_email = ''bo@x.com'', st_phone = None, st_dob = 0,
                 st_department = None, st_currentSemester = 1, st_batchId = None,
                 st_teacherId = None, st_parentName = None, st_parentEmail = None,
                 st_parentPhone = None, st_address = None\<rparr>)\<rparr>"

text \<open>A gateway whose batch lookup throws, for every row.\<close>

definition batch_lookup_fails :: gateway where
  "batch_lookup_fails i op = (if op = FindBatch then Some ''connection lost'' else None)"

text \<open>A gateway whose batch creation throws, for every row.\<close>

definition batch_create_fails :: gateway where
  "batch_create_fails i op = (if op = CreateBatch then Some ''unique constraint'' else None)"

section \<open>The quoting the parser reads\<close>

text \<open>
  A field written the way CSV writers quote it: inside double quotes, every double quote
  of the value doubled. This is the writer's side, against which \<open>parseLine\<close> is compared.
\<close>

definition quoted_field :: "string \<Rightarrow> string" where
  "quoted_field s = dq # concat (map (\<lambda>c. if c = dq then [dq, dq] else [c]) s) @ [dq]"

section \<open>Properties of the CSV parser\<close>

lemma length_split_on: "length (split_on c s) = Suc (length (filter (\<lambda>x. x = c) s))"
  by (induction s) (auto split: list.splits)

lemma split_on_not_Nil: "split_on c s \<noteq> []"
  using length_split_on [of c s] by auto

lemma filter_dropWhile_le: "length (filter P (dropWhile Q s)) \<le> length (filter P s)"
  by (induction s) auto

lemma filter_trim_le: "length (filter P (trim s)) \<le> length (filter P s)"
proof -
  have "length (filter P (trim s)) = length (filter P (dropWhile is_ws (rev (dropWhile is_ws s))))"
    unfolding trim_def by (simp add: rev_filter [symmetric])
  also have "\<dots> \<le> length (filter P (rev (dropWhile is_ws s)))"
    by (rule filter_dropWhile_le)
  also have "\<dots> = length (filter P (dropWhile is_ws s))"
    by (simp add: rev_filter [symmetric])
  also have "\<dots> \<le> length (filter P s)"
    by (rule filter_dropWhile_le)
  finally show ?thesis .
qed

lemma lines_trim_le: "length (csv_lines s) \<le> length (split_on nl s)"
  unfolding csv_lines_def length_split_on using filter_trim_le [of "\<lambda>x. x = nl" s] by simp

lemma set_trim: "set (trim s) \<subseteq> set s"
proof -
  have "set (trim s) = set (dropWhile is_ws (rev (dropWhile is_ws s)))"
    by (simp add: trim_def)
  also have "\<dots> \<subseteq> set (rev (dropWhile is_ws s))"
    by (meson set_dropWhileD subsetI)
  also have "\<dots> \<subseteq> set s"
    using set_dropWhileD by fastforce
  finally show ?thesis .
qed

lemma remove_quotes_id: "dq \<notin> set s \<Longrightarrow> remove_quotes s = s"
  by (simp add: remove_quotes_def filter_id_conv) metis

lemma no_dq_remove_quotes: "dq \<notin> set (remove_quotes s)"
  by (simp add: remove_quotes_def)

lemma parseLine_loop_plain:
  "dq \<notin> set l \<Longrightarrow>
   parseLine_loop l cur False res =
     res @ (case split_on (CHR '','') l of [] \<Rightarrow> [] | x # xs \<Rightarrow> trim (cur @ x) # map trim xs)"
proof (induction l arbitrary: cur res)
  case Nil
  then show ?case by simp
next
  case (Cons c l)
  then show ?case
    by (cases "split_on (CHR '','') l") (auto simp: split_on_not_Nil)
qed

lemma parseLine_plain: "dq \<notin> set l \<Longrightarrow> parseLine l = map trim (split_on (CHR '','') l)"
  unfolding parseLine_def using parseLine_loop_plain [of l "[]" "[]"]
  by (cases "split_on (CHR '','') l") (auto simp: split_on_not_Nil)

lemma set_split_on: "x \<in> set (split_on c s) \<Longrightarrow> set x \<subseteq> set s"
  by (induction s arbitrary: x) (auto split: if_splits list.splits, fastforce+)

lemma dom_assign_fields:
  "length hs = length vs \<Longrightarrow> dom (assign_fields hs vs r) = dom r \<union> set hs"
  by (induction hs vs r rule: assign_fields.induct) auto

lemma rows_loop_dom: "r \<in> set (rows_loop hs ls) \<Longrightarrow> dom r = set hs"
proof (induction ls)
  case Nil
  then show ?case by simp
next
  case (Cons l ls)
  show ?case
  proof (cases "length (parseLine l) = length hs")
    case True
    then have "dom (assign_fields hs (map strip_quotes (parseLine l)) Map.empty) = set hs"
      by (simp add: dom_assign_fields)
    with Cons True show ?thesis by (auto simp: Let_def)
  next
    case False
    with Cons show ?thesis by (simp add: Let_def)
  qed
qed

lemma rows_loop_filter:
  "rows_loop hs ls = rows_loop hs (filter (\<lambda>l. length (parseLine l) = length hs) ls)"
  by (induction ls) (auto simp: Let_def)

lemma rows_loop_length:
  "length (rows_loop hs ls) = length (filter (\<lambda>l. length (parseLine l) = length hs) ls)"
  by (induction ls) (auto simp: Let_def)



lemma parseCSV_short: "length (csv_lines csvText) < 2 \<Longrightarrow> parseCSV csvText = []"
  by (simp add: parseCSV_def)

lemma parseCSV_raw_short: "length (split_on nl csvText) < 2 \<Longrightarrow> parseCSV csvText = []"
  using lines_trim_le [of csvText] parseCSV_short [of csvText] by linarith

lemma parseCSV_long:
  "2 \<le> length (csv_lines csvText) \<Longrightarrow>
   parseCSV csvText = rows_loop (csv_headers csvText) (tl (csv_lines csvText))"
  by (simp add: parseCSV_def)

lemma parseCSV_full:
  assumes two: "2 \<le> length (csv_lines csvText)"
    and same: "\<forall>l \<in> set (tl (csv_lines csvText)).
                 length (parseLine l) = length (parseLine (hd (csv_lines csvText)))"
  shows "length (parseCSV csvText) = length (csv_lines csvText) - 1"
    and "\<forall>r \<in> set (parseCSV csvText). dom r = set (csv_headers csvText)"
proof -
  let ?ls = "csv_lines csvText"
  let ?hs = "csv_headers csvText"
  have len_hs: "length ?hs = length (parseLine (hd ?ls))"
    by (simp add: csv_headers_def)
  have "filter (\<lambda>l. length (parseLine l) = length ?hs) (tl ?ls) = tl ?ls"
    unfolding filter_id_conv len_hs using same by simp
  then have "length (rows_loop ?hs (tl ?ls)) = length (tl ?ls)"
    by (simp only: rows_loop_length)
  then show "length (parseCSV csvText) = length ?ls - 1"
    by (simp add: parseCSV_long [OF two])
  show "\<forall>r \<in> set (parseCSV csvText). dom r = set ?hs"
    unfolding parseCSV_long [OF two] using rows_loop_dom by blast
qed

lemma csv_headers_plain:
  assumes nq: "dq \<notin> set (hd (csv_lines csvText))"
  shows "csv_headers csvText = map trim (split_on (CHR '','') (hd (csv_lines csvText)))"
proof -
  let ?h = "hd (csv_lines csvText)"
  have "dq \<notin> set (trim x)" if "x \<in> set (split_on (CHR '','') ?h)" for x
  proof -
    have "set (trim x) \<subseteq> set ?h"
      using set_trim [of x] set_split_on [OF that] by (rule subset_trans)
    with nq show ?thesis by blast
  qed
  then have "map remove_quotes (map trim (split_on (CHR '','') ?h))
             = map trim (split_on (CHR '','') ?h)"
    by (simp add: remove_quotes_id)
  then show ?thesis
    unfolding csv_headers_def parseLine_plain [OF nq] .
qed

lemma parseCSV_omits:
  "2 \<le> length (csv_lines csvText) \<Longrightarrow>
   parseCSV csvText =
     rows_loop (csv_headers csvText)
       (filter (\<lambda>l. length (parseLine l) = length (csv_headers csvText)) (tl (csv_lines csvText)))"
  unfolding parseCSV_long using rows_loop_filter [of "csv_headers csvText" "tl (csv_lines csvText)"] .

lemma parseLine_loop_quoted:
  "parseLine_loop (concat (map (\<lambda>c. if c = dq then [dq, dq] else [c]) s) @ [dq]) cur True res
   = res @ [trim (cur @ s)]"
  by (induction s arbitrary: cur) auto

lemma parseLine_loop_open:
  "rest \<noteq> [] \<Longrightarrow> parseLine_loop (dq # rest) cur False res = parseLine_loop rest cur True res"
  by (cases rest) auto

lemma parseLine_quoted: "parseLine (quoted_field s) = [trim s]"
  unfolding parseLine_def quoted_field_def
  using parseLine_loop_quoted [of s "[]" "[]"] by (simp add: parseLine_loop_open del: parseLine_loop.simps)

lemma strip_quotes_both: "strip_quotes (dq # x @ [dq]) = x"
  by (simp add: strip_quotes_def)

lemma strip_quotes_none: "x = [] \<or> (hd x \<noteq> dq \<and> last x \<noteq> dq) \<Longrightarrow> strip_quotes x = x"
  by (cases x) (auto simp: strip_quotes_def)

lemma assign_fields_other: "k \<notin> set hs \<Longrightarrow> assign_fields hs vs r k = r k"
  by (induction hs vs r rule: assign_fields.induct) auto

lemma assign_fields_nth:
  "distinct hs \<Longrightarrow> length hs = length vs \<Longrightarrow> j < length hs \<Longrightarrow>
   assign_fields hs vs r (hs ! j) = Some (if vs ! j = [] then None else Some (vs ! j))"
proof (induction hs vs r arbitrary: j rule: assign_fields.induct)
  case (1 h hs v vs r)
  show ?case
  proof (cases j)
    case 0
    with 1 show ?thesis by (simp add: assign_fields_other)
  next
    case (Suc j')
    from "1.prems" Suc have "distinct hs" "length hs = length vs" "j' < length hs"
      by simp_all
    then have "assign_fields hs vs (r(h \<mapsto> (if v = [] then None else Some v))) (hs ! j')
                 = Some (if vs ! j' = [] then None else Some (vs ! j'))"
      by (rule "1.IH")
    then show ?thesis
      unfolding Suc by (simp only: assign_fields.simps nth_Cons_Suc)
  qed
qed simp_all

lemma rows_loop_mem:
  "l \<in> set ls \<Longrightarrow> length (parseLine l) = length hs \<Longrightarrow>
   assign_fields hs (map strip_quotes (parseLine l)) Map.empty \<in> set (rows_loop hs ls)"
  by (induction ls) (auto simp: Let_def)

lemma csv_headers_no_quote: "h \<in> set (csv_headers csvText) \<Longrightarrow> dq \<notin> set h"
  by (auto simp: csv_headers_def remove_quotes_def)

lemma parseCSV_keys_no_quote:
  assumes "r \<in> set (parseCSV csvText)" "k \<in> dom r"
  shows "dq \<notin> set k"
proof -
  from assms(1) have two: "2 \<le> length (csv_lines csvText)"
    by (auto simp: parseCSV_def split: if_splits)
  with assms(1) have "dom r = set (csv_headers csvText)"
    using rows_loop_dom by (simp add: parseCSV_long)
  with assms(2) show ?thesis using csv_headers_no_quote by blast
qed

lemma parseCSV_value:
  assumes two: "2 \<le> length (csv_lines csvText)"
    and dist: "distinct (csv_headers csvText)"
    and l: "l \<in> set (tl (csv_lines csvText))"
    and len: "length (parseLine l) = length (csv_headers csvText)"
    and j: "j < length (csv_headers csvText)"
  shows "\<exists>r \<in> set (parseCSV csvText).
           r (csv_headers csvText ! j) =
             Some (if strip_quotes (parseLine l ! j) = [] then None
                   else Some (strip_quotes (parseLine l ! j)))"
proof -
  let ?hs = "csv_headers csvText"
  let ?r = "assign_fields ?hs (map strip_quotes (parseLine l)) Map.empty"
  have "?r \<in> set (parseCSV csvText)"
    unfolding parseCSV_long [OF two] using l len by (rule rows_loop_mem)
  moreover have "?r (?hs ! j) = Some (if strip_quotes (parseLine l ! j) = [] then None
                   else Some (strip_quotes (parseLine l ! j)))"
    using assign_fields_nth [OF dist _ j, of "map strip_quotes (parseLine l)" Map.empty] len j
    by simp
  ultimately show ?thesis by blast
qed

text \<open>
  Claim C7. \<open>parseCSV\<close> returns no row when the text has fewer than two lines, before or
  after the trimming of the whole text. When every data line has as many fields as the
  header line, it returns one row per data line (the number of lines minus one), and
  every row has exactly the header names as keys; for a header line without quotes these
  are the comma-separated pieces of the line, trimmed. In general the result is what the
  data lines with the header's field count give, in order: a line with another field
  count is left out, and the result (a list of rows, nothing else) carries no trace of it.
\<close>

theorem parseCSV_row_count:
  "(length (split_on nl csvText) < 2 \<longrightarrow> parseCSV csvText = [])
   \<and> (length (csv_lines csvText) < 2 \<longrightarrow> parseCSV csvText = [])
   \<and> (2 \<le> length (csv_lines csvText)
        \<and> (\<forall>l \<in> set (tl (csv_lines csvText)).
              length (parseLine l) = length (parseLine (hd (csv_lines csvText))))
      \<longrightarrow> length (parseCSV csvText) = length (csv_lines csvText) - 1
          \<and> (\<forall>r \<in> set (parseCSV csvText). dom r = set (csv_headers csvText)))
   \<and> (dq \<notin> set (hd (csv_lines csvText))
      \<longrightarrow> csv_headers csvText = map trim (split_on (CHR '','') (hd (csv_lines csvText))))
   \<and> (2 \<le> length (csv_lines csvText)
      \<longrightarrow> parseCSV csvText =
            rows_loop (csv_headers csvText)
              (filter (\<lambda>l. length (parseLine l) = length (csv_headers csvText))
                 (tl (csv_lines csvText))))"
proof (intro conjI impI)
  show "parseCSV csvText = []" if "length (split_on nl csvText) < 2"
    using that by (rule parseCSV_raw_short)
  show "parseCSV csvText = []" if "length (csv_lines csvText) < 2"
    using that by (rule parseCSV_short)
next
  assume h: "2 \<le> length (csv_lines csvText)
        \<and> (\<forall>l \<in> set (tl (csv_lines csvText)).
              length (parseLine l) = length (parseLine (hd (csv_lines csvText))))"
  show "length (parseCSV csvText) = length (csv_lines csvText) - 1"
    using h parseCSV_full(1) [of csvText] by (elim conjE)
  show "\<forall>r \<in> set (parseCSV csvText). dom r = set (csv_headers csvText)"
    using h parseCSV_full(2) [of csvText] by (elim conjE)
next
  show "csv_headers csvText = map trim (split_on (CHR '','') (hd (csv_lines csvText)))"
    if "dq \<notin> set (hd (csv_lines csvText))"
    using that by (rule csv_headers_plain)
  show "parseCSV csvText =
            rows_loop (csv_headers csvText)
              (filter (\<lambda>l. length (parseLine l) = length (csv_headers csvText))
                 (tl (csv_lines csvText)))"
    if "2 \<le> length (csv_lines csvText)"
    using that by (rule parseCSV_omits)
qed

theorem parseCSV_row_count_witness:
  "parseCSV ''a,b'' = []
   \<and> parseCSV (''a,b'' @ [nl]) = []
   \<and> length (parseCSV (''a , b'' @ [nl] @ ''1,2'' @ [nl] @ ''3,4'')) = 2
   \<and> list_all (\<lambda>r. dom r = {''a'', ''b''}) (parseCSV (''a , b'' @ [nl] @ ''1,2'' @ [nl] @ ''3,4''))
   \<and> length (parseCSV (''a,b'' @ [nl] @ ''1,2'' @ [nl] @ ''3'' @ [nl] @ ''5,6'')) = 2"
proof -
  let ?one = "''a,b''"
  let ?nlend = "''a,b'' @ [nl]"
  let ?good = "''a , b'' @ [nl] @ ''1,2'' @ [nl] @ ''3,4''"
  let ?bad = "''a,b'' @ [nl] @ ''1,2'' @ [nl] @ ''3'' @ [nl] @ ''5,6''"
  have h1: "length (split_on nl ?one) < 2" by code_simp
  have c1: "parseCSV ?one = []"
    using parseCSV_row_count [of ?one, THEN conjunct1] h1 by (rule mp)
  have h2: "length (csv_lines ?nlend) < 2" by code_simp
  have c2: "parseCSV ?nlend = []"
    using parseCSV_row_count [of ?nlend, THEN conjunct2, THEN conjunct1] h2 by (rule mp)
  have lines: "csv_lines ?good = [''a , b'', ''1,2'', ''3,4'']" by code_simp
  have pl: "parseLine ''a , b'' = [''a'', ''b'']" "parseLine ''1,2'' = [''1'', ''2'']"
    "parseLine ''3,4'' = [''3'', ''4'']" by code_simp+
  have h3: "2 \<le> length (csv_lines ?good)
            \<and> (\<forall>l \<in> set (tl (csv_lines ?good)).
              length (parseLine l) = length (parseLine (hd (csv_lines ?good))))"
    unfolding lines by (simp add: pl)
  have h5: "dq \<notin> set (hd (csv_lines ?good))" unfolding lines by simp
  have tr: "map trim (split_on (CHR '','') ''a , b'') = [''a'', ''b'']" by code_simp
  have "csv_headers ?good = map trim (split_on (CHR '','') (hd (csv_lines ?good)))"
    using parseCSV_row_count [of ?good, THEN conjunct2, THEN conjunct2, THEN conjunct2, THEN conjunct1] h5
    by (rule mp)
  then have hdrs: "csv_headers ?good = [''a'', ''b'']"
    unfolding lines list.sel tr .
  have c3: "length (parseCSV ?good) = length (csv_lines ?good) - 1
            \<and> (\<forall>r \<in> set (parseCSV ?good). dom r = set (csv_headers ?good))"
    using parseCSV_row_count [of ?good, THEN conjunct2, THEN conjunct2, THEN conjunct1] h3
    by (rule mp)
  then have c3': "length (parseCSV ?good) = 2" unfolding lines by simp
  from c3 have c4: "list_all (\<lambda>r. dom r = {''a'', ''b''}) (parseCSV ?good)"
    unfolding hdrs list_all_iff by (simp add: insert_commute)
  have blines: "csv_lines ?bad = [''a,b'', ''1,2'', ''3'', ''5,6'']" by code_simp
  have bh: "csv_headers ?bad = [''a'', ''b'']" by code_simp
  have bp: "parseLine ''3'' = [''3'']" "parseLine ''5,6'' = [''5'', ''6'']" by code_simp+
  have h6: "2 \<le> length (csv_lines ?bad)" unfolding blines by simp
  have "parseCSV ?bad = rows_loop (csv_headers ?bad)
         (filter (\<lambda>l. length (parseLine l) = length (csv_headers ?bad)) (tl (csv_lines ?bad)))"
    using parseCSV_row_count [of ?bad, THEN conjunct2, THEN conjunct2, THEN conjunct2, THEN conjunct2] h6
    by (rule mp)
  then have c5: "length (parseCSV ?bad) = 2"
    unfolding blines bh by (simp add: pl bp Let_def)
  show ?thesis using c1 c2 c3' c4 c5 by (intro conjI)
qed

text \<open>
  Claim C8. A quoted field is tokenized to its value: the doubled quotes come back as single
  ones (for every value, up to the trimming \<open>parseLine\<close> applies to each field). The field
  \<open>"He said ""hi"""\<close> is tokenized to \<open>He said "hi"\<close>; the second pass then strips the
  double quote that ends this value, so the row holds \<open>He said "hi\<close>.
\<close>

theorem escaped_quote_field:
  "parseLine (quoted_field field) = [trim field]
   \<and> quoted_field (''He said '' @ [dq] @ ''hi'' @ [dq]) = dq # ''He said '' @ [dq, dq] @ ''hi'' @ [dq, dq, dq]
   \<and> parseLine (dq # ''He said '' @ [dq, dq] @ ''hi'' @ [dq, dq, dq])
       = [''He said '' @ [dq] @ ''hi'' @ [dq]]
   \<and> strip_quotes (''He said '' @ [dq] @ ''hi'' @ [dq]) = ''He said '' @ [dq] @ ''hi''
   \<and> map (\<lambda>r. r ''quote'')
         (parseCSV (''quote'' @ [nl] @ dq # ''He said '' @ [dq, dq] @ ''hi'' @ [dq, dq, dq]))
       = [Some (Some (''He said '' @ [dq] @ ''hi''))]"
proof (intro conjI)
  show "parseLine (quoted_field field) = [trim field]" by (rule parseLine_quoted)
qed code_simp+

text \<open>
  Claim C10. Header names and data values are treated differently. No header name, hence
  no key of a row, contains a double quote: all of them are removed. A data value is the
  token with \<open>strip_quotes\<close> applied (\<open>null\<close> when that is empty), which removes one double
  quote at the start and one at the end and no more: it maps \<open>"x"\<close> to \<open>x\<close> whatever \<open>x\<close>
  is, and leaves a value alone that neither starts nor ends with a double quote. The header
  token \<open>a"b"\<close> becomes the key \<open>ab\<close>.
\<close>

theorem header_and_value_quotes:
  "(\<forall>h \<in> set (csv_headers csvText). dq \<notin> set h)
   \<and> (\<forall>r \<in> set (parseCSV csvText). \<forall>k \<in> dom r. dq \<notin> set k)
   \<and> (2 \<le> length (csv_lines csvText) \<and> distinct (csv_headers csvText)
        \<and> l \<in> set (tl (csv_lines csvText))
        \<and> length (parseLine l) = length (csv_headers csvText)
        \<and> j < length (csv_headers csvText)
      \<longrightarrow> (\<exists>r \<in> set (parseCSV csvText).
             r (csv_headers csvText ! j) =
               Some (if strip_quotes (parseLine l ! j) = [] then None
                     else Some (strip_quotes (parseLine l ! j)))))
   \<and> strip_quotes (dq # x @ [dq]) = x
   \<and> (x = [] \<or> (hd x \<noteq> dq \<and> last x \<noteq> dq) \<longrightarrow> strip_quotes x = x)
   \<and> csv_headers (''a'' @ [dq] @ ''b'' @ [dq] @ [nl] @ ''1'') = [''ab'']"
proof (intro conjI impI ballI)
  show "csv_headers (''a'' @ [dq] @ ''b'' @ [dq] @ [nl] @ ''1'') = [''ab'']" by code_simp
next
  show "strip_quotes (dq # x @ [dq]) = x" by (rule strip_quotes_both)
next
  show "strip_quotes x = x" if "x = [] \<or> (hd x \<noteq> dq \<and> last x \<noteq> dq)"
    using that by (rule strip_quotes_none)
next
  show "dq \<notin> set h" if "h \<in> set (csv_headers csvText)" for h
    using that by (rule csv_headers_no_quote)
next
  show "dq \<notin> set k" if "r \<in> set (parseCSV csvText)" "k \<in> dom r" for r k
    using that by (rule parseCSV_keys_no_quote)
next
  assume h: "2 \<le> length (csv_lines csvText) \<and> distinct (csv_headers csvText)
        \<and> l \<in> set (tl (csv_lines csvText))
        \<and> length (parseLine l) = length (csv_headers csvText)
        \<and> j < length (csv_headers csvText)"
  then show "\<exists>r \<in> set (parseCSV csvText).
             r (csv_headers csvText ! j) =
               Some (if strip_quotes (parseLine l ! j) = [] then None
                     else Some (strip_quotes (parseLine l ! j)))"
    using parseCSV_value [of csvText l j] by (elim conjE)
qed

theorem header_and_value_quotes_witness:
  "csv_headers (dq # ''a'' @ [dq, dq] @ ''b'' @ [dq] @ [nl] @ dq # ''a'' @ [dq, dq] @ ''b'' @ [dq]) = [''ab'']
   \<and> list_all (\<lambda>h. dq \<notin> set h)
         (csv_headers (dq # ''a'' @ [dq, dq] @ ''b'' @ [dq] @ [nl] @ dq # ''a'' @ [dq, dq] @ ''b'' @ [dq]))
   \<and> list_ex (\<lambda>r. r ''ab'' = Some (Some (''a'' @ [dq] @ ''b'')))
         (parseCSV (dq # ''a'' @ [dq, dq] @ ''b'' @ [dq] @ [nl] @ dq # ''a'' @ [dq, dq] @ ''b'' @ [dq]))
   \<and> strip_quotes (dq # (dq # ''a'' @ [dq]) @ [dq]) = dq # ''a'' @ [dq]
   \<and> strip_quotes ''ab'' = ''ab''"
proof -
  let ?line = "dq # ''a'' @ [dq, dq] @ ''b'' @ [dq]"
  let ?csv = "?line @ [nl] @ ?line"
  note inst = header_and_value_quotes [of ?csv ?line 0 "''ab''"]
  have lines: "csv_lines ?csv = [?line, ?line]" by code_simp
  have hdrs: "csv_headers ?csv = [''ab'']" by code_simp
  have toks: "parseLine ?line = [''a'' @ [dq] @ ''b'']" by code_simp
  have val: "strip_quotes [CHR ''a'', dq, CHR ''b''] = [CHR ''a'', dq, CHR ''b'']" by code_simp
  have c1: "list_all (\<lambda>h. dq \<notin> set h) (csv_headers ?csv)"
    using inst [THEN conjunct1] unfolding list_all_iff .
  have hyp: "2 \<le> length (csv_lines ?csv) \<and> distinct (csv_headers ?csv)
        \<and> ?line \<in> set (tl (csv_lines ?csv))
        \<and> length (parseLine ?line) = length (csv_headers ?csv)
        \<and> 0 < length (csv_headers ?csv)"
    unfolding lines hdrs toks by simp
  have "\<exists>r \<in> set (parseCSV ?csv).
             r (csv_headers ?csv ! 0) =
               Some (if strip_quotes (parseLine ?line ! 0) = [] then None
                     else Some (strip_quotes (parseLine ?line ! 0)))"
    using inst [THEN conjunct2, THEN conjunct2, THEN conjunct1] hyp by (rule mp)
  then have c2: "list_ex (\<lambda>r. r ''ab'' = Some (Some (''a'' @ [dq] @ ''b''))) (parseCSV ?csv)"
    unfolding hdrs toks list_ex_iff by (simp add: val)
  have c3: "strip_quotes (dq # (dq # ''a'' @ [dq]) @ [dq]) = dq # ''a'' @ [dq]"
    using header_and_value_quotes [of ?csv ?line 0 "dq # ''a'' @ [dq]",
        THEN conjunct2, THEN conjunct2, THEN conjunct2, THEN conjunct1] .
  have h4: "''ab'' = [] \<or> (hd ''ab'' \<noteq> dq \<and> last ''ab'' \<noteq> dq)" by simp
  have c4: "strip_quotes ''ab'' = ''ab''"
    using inst [THEN conjunct2, THEN conjunct2, THEN conjunct2, THEN conjunct2, THEN conjunct1] h4
    by (rule mp)
  show ?thesis using hdrs c1 c2 c3 c4 by simp
qed

section \<open>Properties of the upload handler\<close>

lemma findFirst_Some:
  "findFirst P xs = Some k \<Longrightarrow> k < length xs \<and> P (xs ! k) \<and> (\<forall>j<k. \<not> P (xs ! j))"
proof (induction xs arbitrary: k)
  case Nil
  then show ?case by simp
next
  case (Cons x xs)
  show ?case
  proof (cases "P x")
    case True
    with Cons.prems show ?thesis by simp
  next
    case False
    with Cons.prems obtain k' where k': "findFirst P xs = Some k'" "k = Suc k'"
      by (auto split: option.splits)
    from Cons.IH [OF k'(1)] False show ?thesis
      unfolding k'(2) by (auto simp: less_Suc_eq_0_disj)
  qed
qed

lemma findFirst_None: "findFirst P xs = None \<longleftrightarrow> (\<forall>x \<in> set xs. \<not> P x)"
  by (induction xs) (auto split: option.splits)

lemma findFirst_append:
  "findFirst P (xs @ [x]) =
     (case findFirst P xs of Some k \<Rightarrow> Some k | None \<Rightarrow> if P x then Some (length xs) else None)"
  by (induction xs) (auto split: option.splits)

lemma findFirst_update:
  "findFirst P xs = Some k \<Longrightarrow> P y \<Longrightarrow> findFirst P (xs[k := y]) = Some k"
proof (induction xs arbitrary: k)
  case Nil
  then show ?case by simp
next
  case (Cons x xs)
  then show ?case
    by (cases k) (auto split: option.splits if_splits)
qed

lemma ensure_course_frame:
  "ensure_course gw i courseId st d = Inr d1 \<Longrightarrow>
   students d1 = students d \<and> batches d1 = batches d \<and> attendances d1 = attendances d
   \<and> testScores d1 = testScores d \<and> backlogs d1 = backlogs d
   \<and> feePayments d1 = feePayments d \<and> projects d1 = projects d
   \<and> phdSupervisions d1 = phdSupervisions d \<and> fellowships d1 = fellowships d"
  by (auto simp: ensure_course_def split: option.splits)

lemma upsert_attendance_accepted:
  assumes "upsert_attendance gw i sid cid t ap d = (d', reasons, True)"
  shows "reasons = []"
    and "findFirst (\<lambda>a. at_studentId a = sid \<and> at_courseId a = cid \<and> at_month a = t)
           (attendances d) = Some k \<Longrightarrow>
         attendances d' = (attendances d)[k := (attendances d ! k)\<lparr>at_attendancePercent := ap\<rparr>]"
    and "findFirst (\<lambda>a. at_studentId a = sid \<and> at_courseId a = cid \<and> at_month a = t)
           (attendances d) = None \<Longrightarrow>
         attendances d' = attendances d @
           [\<lparr>at_studentId = sid, at_courseId = cid, at_month = t, at_attendancePercent = ap\<rparr>]"
  using assms
  by (auto simp: upsert_attendance_def thrown_def completed_def split: option.splits)

lemma attendance_pass_accepted:
  assumes "attendance_pass B gw i r d = (d', reasons, True)"
  shows "\<exists>st d1 t.
           students d (str r ''studentId'') = Some st
           \<and> ensure_course gw i (str r ''courseId'') st d = Inr d1
           \<and> parse_month B (str r ''month'') = Inr t
           \<and> upsert_attendance gw i (str r ''studentId'') (str r ''courseId'') t
                (parseFloat B (str r ''attendancePercent'')) d1 = (d', reasons, True)"
  using assms
  by (auto simp: attendance_pass_def skipped_def thrown_def Let_def
           split: option.splits sum.splits if_splits)

lemma upsert_backlog_accepted:
  assumes "upsert_backlog gw i sid cid n c d = (d', reasons, True)"
  shows "reasons = []"
    and "findFirst (\<lambda>b. bl_studentId b = sid \<and> bl_courseId b = cid) (backlogs d) = Some k \<Longrightarrow>
         backlogs d' = (backlogs d)[k := (backlogs d ! k)\<lparr>bl_attempts := n, bl_cleared := c\<rparr>]"
    and "findFirst (\<lambda>b. bl_studentId b = sid \<and> bl_courseId b = cid) (backlogs d) = None \<Longrightarrow>
         backlogs d' = backlogs d @
           [\<lparr>bl_studentId = sid, bl_courseId = cid, bl_attempts = n, bl_cleared = c\<rparr>]"
  using assms
  by (auto simp: upsert_backlog_def thrown_def completed_def split: option.splits)

lemma backlogs_pass_accepted:
  assumes "backlogs_pass gw i r d = (d', reasons, True)"
  shows "\<exists>st d1 n.
           students d (str r ''studentId'') = Some st
           \<and> ensure_course gw i (str r ''courseId'') st d = Inr d1
           \<and> parseInt (str r ''attempts'') = Some n
           \<and> upsert_backlog gw i (str r ''studentId'') (str r ''courseId'') n
                (parse_cleared (str r ''cleared'')) d1 = (d', reasons, True)"
  using assms
  by (auto simp: backlogs_pass_def skipped_def thrown_def Let_def
           split: option.splits sum.splits if_splits)

lemma testscores_pass_accepted:
  assumes "testscores_pass B gw i r d = (d', reasons, True)"
  shows "\<exists>t. newDate B (str r ''testDate'') = Date t
           \<and> testScores d' = testScores d @
               [\<lparr>ts_studentId = str r ''studentId'', ts_courseId = str r ''courseId'',
                 ts_testDate = t, ts_score = parseFloat B (str r ''score'')\<rparr>]"
  using assms
  by (auto simp: testscores_pass_def skipped_def thrown_def completed_def Let_def
           dest!: ensure_course_frame
           split: option.splits sum.splits if_splits jsdate.splits)


lemma upsert_attendance_written:
  assumes "upsert_attendance gw i sid cid t ap d = (d', reasons, True)"
  shows "\<exists>k. findFirst (\<lambda>a. at_studentId a = sid \<and> at_courseId a = cid \<and> at_month a = t)
               (attendances d') = Some k
             \<and> attendances d' ! k =
                 \<lparr>at_studentId = sid, at_courseId = cid, at_month = t, at_attendancePercent = ap\<rparr>"
proof (cases "findFirst (\<lambda>a. at_studentId a = sid \<and> at_courseId a = cid \<and> at_month a = t)
                (attendances d)")
  case None
  from upsert_attendance_accepted(3) [OF assms None] None show ?thesis
    by (simp add: findFirst_append)
next
  case (Some k)
  let ?P = "\<lambda>a. at_studentId a = sid \<and> at_courseId a = cid \<and> at_month a = t"
  let ?new = "(attendances d ! k)\<lparr>at_attendancePercent := ap\<rparr>"
  from findFirst_Some [OF Some] have k: "k < length (attendances d)" "?P (attendances d ! k)"
    by simp_all
  have upd: "attendances d' = (attendances d)[k := ?new]"
    by (rule upsert_attendance_accepted(2) [OF assms Some])
  have "?P ?new" using k(2) by simp
  then have "findFirst ?P (attendances d') = Some k"
    unfolding upd by (rule findFirst_update [OF Some])
  moreover have "attendances d' ! k =
      \<lparr>at_studentId = sid, at_courseId = cid, at_month = t, at_attendancePercent = ap\<rparr>"
    unfolding upd using k by simp
  ultimately show ?thesis by blast
qed

lemma upsert_backlog_written:
  assumes "upsert_backlog gw i sid cid n c d = (d', reasons, True)"
  shows "\<exists>k. findFirst (\<lambda>b. bl_studentId b = sid \<and> bl_courseId b = cid) (backlogs d') = Some k
             \<and> backlogs d' ! k =
                 \<lparr>bl_studentId = sid, bl_courseId = cid, bl_attempts = n, bl_cleared = c\<rparr>"
proof (cases "findFirst (\<lambda>b. bl_studentId b = sid \<and> bl_courseId b = cid) (backlogs d)")
  case None
  from upsert_backlog_accepted(3) [OF assms None] None show ?thesis
    by (simp add: findFirst_append)
next
  case (Some k)
  let ?P = "\<lambda>b. bl_studentId b = sid \<and> bl_courseId b = cid"
  let ?new = "(backlogs d ! k)\<lparr>bl_attempts := n, bl_cleared := c\<rparr>"
  from findFirst_Some [OF Some] have k: "k < length (backlogs d)" "?P (backlogs d ! k)"
    by simp_all
  have upd: "backlogs d' = (backlogs d)[k := ?new]"
    by (rule upsert_backlog_accepted(2) [OF assms Some])
  have "?P ?new" using k(2) by simp
  then have "findFirst ?P (backlogs d') = Some k"
    unfolding upd by (rule findFirst_update [OF Some])
  moreover have "backlogs d' ! k =
      \<lparr>bl_studentId = sid, bl_courseId = cid, bl_attempts = n, bl_cleared = c\<rparr>"
    unfolding upd using k by simp
  ultimately show ?thesis by blast
qed

lemma attendance_in_place:
  assumes acc: "attendance_pass B gw i r d = (d', reasons, True)"
    and t: "parse_month B (str r ''month'') = Inr t"
    and k: "findFirst (\<lambda>a. at_studentId a = str r ''studentId''
                            \<and> at_courseId a = str r ''courseId'' \<and> at_month a = t)
              (attendances d) = Some k"
  shows "attendances d' = (attendances d)
           [k := (attendances d ! k)\<lparr>at_attendancePercent := parseFloat B (str r ''attendancePercent'')\<rparr>]"
proof -
  from attendance_pass_accepted [OF acc] t obtain st d1 where
    d1: "ensure_course gw i (str r ''courseId'') st d = Inr d1"
    and up: "upsert_attendance gw i (str r ''studentId'') (str r ''courseId'') t
               (parseFloat B (str r ''attendancePercent'')) d1 = (d', reasons, True)"
    by auto
  from ensure_course_frame [OF d1] have same: "attendances d1 = attendances d" by simp
  from upsert_attendance_accepted(2) [OF up, of k] k show ?thesis
    unfolding same by simp
qed

lemma attendance_again:
  assumes one: "attendance_pass B gw i r d = (d1, reasons1, True)"
    and two: "attendance_pass B gw' i' r d1 = (d2, reasons2, True)"
  shows "attendances d2 = attendances d1"
proof -
  let ?ap = "parseFloat B (str r ''attendancePercent'')"
  from attendance_pass_accepted [OF one] obtain st d0 t where
    t: "parse_month B (str r ''month'') = Inr t"
    and d0: "ensure_course gw i (str r ''courseId'') st d = Inr d0"
    and up: "upsert_attendance gw i (str r ''studentId'') (str r ''courseId'') t ?ap d0
               = (d1, reasons1, True)"
    by auto
  from upsert_attendance_written [OF up] obtain k where
    k: "findFirst (\<lambda>a. at_studentId a = str r ''studentId''
                      \<and> at_courseId a = str r ''courseId'' \<and> at_month a = t)
          (attendances d1) = Some k"
    and rec: "at_attendancePercent (attendances d1 ! k) = ?ap"
    by auto
  have "attendances d2 = (attendances d1)[k := (attendances d1 ! k)\<lparr>at_attendancePercent := ?ap\<rparr>]"
    by (rule attendance_in_place [OF two t k])
  also have "(attendances d1 ! k)\<lparr>at_attendancePercent := ?ap\<rparr> = attendances d1 ! k"
    using rec by simp
  finally show ?thesis by simp
qed

lemma backlog_in_place:
  assumes acc: "backlogs_pass gw i r d = (d', reasons, True)"
    and n: "parseInt (str r ''attempts'') = Some n"
    and k: "findFirst (\<lambda>b. bl_studentId b = str r ''studentId'' \<and> bl_courseId b = str r ''courseId'')
              (backlogs d) = Some k"
  shows "backlogs d' = (backlogs d)
           [k := (backlogs d ! k)\<lparr>bl_attempts := n, bl_cleared := parse_cleared (str r ''cleared'')\<rparr>]"
proof -
  from backlogs_pass_accepted [OF acc] n obtain st d1 where
    d1: "ensure_course gw i (str r ''courseId'') st d = Inr d1"
    and up: "upsert_backlog gw i (str r ''studentId'') (str r ''courseId'') n
               (parse_cleared (str r ''cleared'')) d1 = (d', reasons, True)"
    by auto
  from ensure_course_frame [OF d1] have same: "backlogs d1 = backlogs d" by simp
  from upsert_backlog_accepted(2) [OF up, of k] k show ?thesis
    unfolding same by simp
qed

lemma backlog_again:
  assumes one: "backlogs_pass gw i r d = (d1, reasons1, True)"
    and two: "backlogs_pass gw' i' r d1 = (d2, reasons2, True)"
  shows "backlogs d2 = backlogs d1"
proof -
  from backlogs_pass_accepted [OF one] obtain st d0 n where
    n: "parseInt (str r ''attempts'') = Some n"
    and d0: "ensure_course gw i (str r ''courseId'') st d = Inr d0"
    and up: "upsert_backlog gw i (str r ''studentId'') (str r ''courseId'') n
               (parse_cleared (str r ''cleared'')) d0 = (d1, reasons1, True)"
    by auto
  from upsert_backlog_written [OF up] obtain k where
    k: "findFirst (\<lambda>b. bl_studentId b = str r ''studentId'' \<and> bl_courseId b = str r ''courseId'')
          (backlogs d1) = Some k"
    and rec: "bl_attempts (backlogs d1 ! k) = n"
             "bl_cleared (backlogs d1 ! k) = parse_cleared (str r ''cleared'')"
    by auto
  have "backlogs d2 = (backlogs d1)
          [k := (backlogs d1 ! k)\<lparr>bl_attempts := n, bl_cleared := parse_cleared (str r ''cleared'')\<rparr>]"
    by (rule backlog_in_place [OF two n k])
  also have "(backlogs d1 ! k)\<lparr>bl_attempts := n, bl_cleared := parse_cleared (str r ''cleared'')\<rparr>
             = backlogs d1 ! k"
    using rec by simp
  finally show ?thesis by simp
qed

lemma testscores_again:
  assumes one: "testscores_pass B gw i r d = (d1, reasons1, True)"
    and two: "testscores_pass B gw' i' r d1 = (d2, reasons2, True)"
  shows "length (testScores d2) = length (testScores d) + 2"
  using testscores_pass_accepted [OF one] testscores_pass_accepted [OF two] by auto

lemma pass_accepted_eq: "snd (snd p) \<Longrightarrow> p = (fst p, fst (snd p), True)"
  by (cases p) auto

text \<open>
  Claim C5. An accepted attendance row whose (student, course, month date) key has a record
  overwrites the percentage of the first such record, and an accepted backlog row whose
  (student, course) key has a record overwrites its attempt count and cleared flag: the
  table keeps its length. An accepted test score row always appends one record, without
  any lookup. Hence importing the same accepted row again leaves the attendance and the
  backlog table as the first import left them, and adds a second test score.
\<close>

theorem reimport_updates_in_place:
  "(attendance_pass B gw i r d = (d', reasons, True)
      \<and> parse_month B (str r ''month'') = Inr monthDate
      \<and> findFirst (\<lambda>a. at_studentId a = str r ''studentId'' \<and> at_courseId a = str r ''courseId''
                         \<and> at_month a = monthDate) (attendances d) = Some k
    \<longrightarrow> attendances d' = (attendances d)
          [k := (attendances d ! k)\<lparr>at_attendancePercent := parseFloat B (str r ''attendancePercent'')\<rparr>]
        \<and> length (attendances d') = length (attendances d))
   \<and> (backlogs_pass gw i r d = (d', reasons, True)
      \<and> parseInt (str r ''attempts'') = Some attempts
      \<and> findFirst (\<lambda>b. bl_studentId b = str r ''studentId'' \<and> bl_courseId b = str r ''courseId'')
           (backlogs d) = Some k
    \<longrightarrow> backlogs d' = (backlogs d)
          [k := (backlogs d ! k)\<lparr>bl_attempts := attempts,
                                 bl_cleared := parse_cleared (str r ''cleared'')\<rparr>]
        \<and> length (backlogs d') = length (backlogs d))
   \<and> (testscores_pass B gw i r d = (d', reasons, True)
    \<longrightarrow> (\<exists>testDate. newDate B (str r ''testDate'') = Date testDate
           \<and> testScores d' = testScores d @
               [\<lparr>ts_studentId = str r ''studentId'', ts_courseId = str r ''courseId'',
                 ts_testDate = testDate, ts_score = parseFloat B (str r ''score'')\<rparr>])
        \<and> length (testScores d') = length (testScores d) + 1)
   \<and> (attendance_pass B gw i r d = (d', reasons, True)
      \<and> attendance_pass B gw' i' r d' = (d'', reasons', True)
    \<longrightarrow> attendances d'' = attendances d')
   \<and> (backlogs_pass gw i r d = (d', reasons, True)
      \<and> backlogs_pass gw' i' r d' = (d'', reasons', True)
    \<longrightarrow> backlogs d'' = backlogs d')
   \<and> (testscores_pass B gw i r d = (d', reasons, True)
      \<and> testscores_pass B gw' i' r d' = (d'', reasons', True)
    \<longrightarrow> length (testScores d'') = length (testScores d) + 2)"
proof (intro conjI impI)
  assume h: "attendance_pass B gw i r d = (d', reasons, True)
      \<and> parse_month B (str r ''month'') = Inr monthDate
      \<and> findFirst (\<lambda>a. at_studentId a = str r ''studentId'' \<and> at_courseId a = str r ''courseId''
                         \<and> at_month a = monthDate) (attendances d) = Some k"
  then show upd: "attendances d' = (attendances d)
          [k := (attendances d ! k)\<lparr>at_attendancePercent := parseFloat B (str r ''attendancePercent'')\<rparr>]"
    using attendance_in_place [of B gw i r d d' reasons monthDate k] by (elim conjE)
  show "length (attendances d') = length (attendances d)"
    unfolding upd by simp
next
  assume h: "backlogs_pass gw i r d = (d', reasons, True)
      \<and> parseInt (str r ''attempts'') = Some attempts
      \<and> findFirst (\<lambda>b. bl_studentId b = str r ''studentId'' \<and> bl_courseId b = str r ''courseId'')
           (backlogs d) = Some k"
  then show upd: "backlogs d' = (backlogs d)
          [k := (backlogs d ! k)\<lparr>bl_attempts := attempts,
                                 bl_cleared := parse_cleared (str r ''cleared'')\<rparr>]"
    using backlog_in_place [of gw i r d d' reasons attempts k] by (elim conjE)
  show "length (backlogs d') = length (backlogs d)"
    unfolding upd by simp
next
  assume h: "testscores_pass B gw i r d = (d', reasons, True)"
  from testscores_pass_accepted [OF h]
  show ex: "\<exists>testDate. newDate B (str r ''testDate'') = Date testDate
           \<and> testScores d' = testScores d @
               [\<lparr>ts_studentId = str r ''studentId'', ts_courseId = str r ''courseId'',
                 ts_testDate = testDate, ts_score = parseFloat B (str r ''score'')\<rparr>]" .
  then show "length (testScores d') = length (testScores d) + 1"
    by auto
next
  assume "attendance_pass B gw i r d = (d', reasons, True)
      \<and> attendance_pass B gw' i' r d' = (d'', reasons', True)"
  then show "attendances d'' = attendances d'"
    using attendance_again [of B gw i r d d' reasons gw' i' d'' reasons'] by (elim conjE)
next
  assume "backlogs_pass gw i r d = (d', reasons, True)
      \<and> backlogs_pass gw' i' r d' = (d'', reasons', True)"
  then show "backlogs d'' = backlogs d'"
    using backlog_again [of gw i r d d' reasons gw' i' d'' reasons'] by (elim conjE)
next
  assume "testscores_pass B gw i r d = (d', reasons, True)
      \<and> testscores_pass B gw' i' r d' = (d'', reasons', True)"
  then show "length (testScores d'') = length (testScores d) + 2"
    using testscores_again [of B gw i r d d' reasons gw' i' d'' reasons'] by (elim conjE)
qed


theorem reimport_updates_in_place_witness:
  "attendances (fst (attendance_pass sample_builtins no_faults 0 (attendance_row ''2024-03'' ''90'') records_db))
     = [\<lparr>at_studentId = ''S1'', at_courseId = ''C1'', at_month = 1709251200000,
         at_attendancePercent = Finite 90\<rparr>]
   \<and> backlogs (fst (backlogs_pass no_faults 0 backlog_row records_db))
     = [\<lparr>bl_studentId = ''S1'', bl_courseId = ''C1'', bl_attempts = 2, bl_cleared = True\<rparr>]
   \<and> length (testScores (fst (testscores_pass sample_builtins no_faults 0 testscore_row records_db))) = 2
   \<and> attendances (fst (attendance_pass sample_builtins no_faults 1 (attendance_row ''2024-03'' ''90'')
         (fst (attendance_pass sample_builtins no_faults 0 (attendance_row ''2024-03'' ''90'') records_db))))
     = attendances (fst (attendance_pass sample_builtins no_faults 0 (attendance_row ''2024-03'' ''90'') records_db))
   \<and> backlogs (fst (backlogs_pass no_faults 1 backlog_row
         (fst (backlogs_pass no_faults 0 backlog_row records_db))))
     = backlogs (fst (backlogs_pass no_faults 0 backlog_row records_db))
   \<and> length (testScores (fst (testscores_pass sample_builtins no_faults 1 testscore_row
         (fst (testscores_pass sample_builtins no_faults 0 testscore_row records_db))))) = 3"
proof -
  let ?B = sample_builtins
  let ?r = "attendance_row ''2024-03'' ''90''"
  let ?a1 = "attendance_pass ?B no_faults 0 ?r records_db"
  let ?a2 = "attendance_pass ?B no_faults 1 ?r (fst ?a1)"
  let ?b1 = "backlogs_pass no_faults 0 backlog_row records_db"
  let ?b2 = "backlogs_pass no_faults 1 backlog_row (fst ?b1)"
  let ?t1 = "testscores_pass ?B no_faults 0 testscore_row records_db"
  let ?t2 = "testscores_pass ?B no_faults 1 testscore_row (fst ?t1)"
  have a1: "?a1 = (fst ?a1, fst (snd ?a1), True)"
    by (rule pass_accepted_eq) code_simp
  have a2: "?a2 = (fst ?a2, fst (snd ?a2), True)"
    by (rule pass_accepted_eq) code_simp
  have b1: "?b1 = (fst ?b1, fst (snd ?b1), True)"
    by (rule pass_accepted_eq) code_simp
  have b2: "?b2 = (fst ?b2, fst (snd ?b2), True)"
    by (rule pass_accepted_eq) code_simp
  have t1: "?t1 = (fst ?t1, fst (snd ?t1), True)"
    by (rule pass_accepted_eq) code_simp
  have t2: "?t2 = (fst ?t2, fst (snd ?t2), True)"
    by (rule pass_accepted_eq) code_simp
  have month: "parse_month ?B (str ?r ''month'') = Inr 1709251200000" by code_simp
  have ka: "findFirst (\<lambda>a. at_studentId a = str ?r ''studentId'' \<and> at_courseId a = str ?r ''courseId''
                         \<and> at_month a = 1709251200000) (attendances records_db) = Some 0"
    by code_simp
  have n: "parseInt (str backlog_row ''attempts'') = Some 2" by code_simp
  have kb: "findFirst (\<lambda>b. bl_studentId b = str backlog_row ''studentId''
                         \<and> bl_courseId b = str backlog_row ''courseId'') (backlogs records_db) = Some 0"
    by code_simp
  note inst = reimport_updates_in_place [where B = ?B and gw = no_faults and i = 0 and k = 0
      and d = records_db and gw' = no_faults and i' = 1 and monthDate = 1709251200000 and attempts = 2]
  have "attendances (fst ?a1) = (attendances records_db)
          [0 := (attendances records_db ! 0)\<lparr>at_attendancePercent := parseFloat ?B (str ?r ''attendancePercent'')\<rparr>]"
    using inst [where r = ?r and d' = "fst ?a1" and reasons = "fst (snd ?a1)", THEN conjunct1]
      a1 month ka by blast
  also have "\<dots> = [\<lparr>at_studentId = ''S1'', at_courseId = ''C1'', at_month = 1709251200000,
         at_attendancePercent = Finite 90\<rparr>]" by code_simp
  finally have c1: "attendances (fst ?a1) = [\<lparr>at_studentId = ''S1'', at_courseId = ''C1'',
         at_month = 1709251200000, at_attendancePercent = Finite 90\<rparr>]" .
  have "backlogs (fst ?b1) = (backlogs records_db)
          [0 := (backlogs records_db ! 0)\<lparr>bl_attempts := 2,
                 bl_cleared := parse_cleared (str backlog_row ''cleared'')\<rparr>]"
    using inst [where r = backlog_row and d' = "fst ?b1" and reasons = "fst (snd ?b1)",
        THEN conjunct2, THEN conjunct1] b1 n kb by blast
  also have "\<dots> = [\<lparr>bl_studentId = ''S1'', bl_courseId = ''C1'', bl_attempts = 2,
         bl_cleared = True\<rparr>]" by code_simp
  finally have c2: "backlogs (fst ?b1) = [\<lparr>bl_studentId = ''S1'', bl_courseId = ''C1'',
         bl_attempts = 2, bl_cleared = True\<rparr>]" .
  have "length (testScores (fst ?t1)) = length (testScores records_db) + 1"
    using inst [where r = testscore_row and d' = "fst ?t1" and reasons = "fst (snd ?t1)",
        THEN conjunct2, THEN conjunct2, THEN conjunct1] t1 by blast
  also have "\<dots> = 2" by code_simp
  finally have c3: "length (testScores (fst ?t1)) = 2" .
  have c4: "attendances (fst ?a2) = attendances (fst ?a1)"
    using inst [where r = ?r and d' = "fst ?a1" and reasons = "fst (snd ?a1)"
        and d'' = "fst ?a2" and reasons' = "fst (snd ?a2)",
        THEN conjunct2, THEN conjunct2, THEN conjunct2, THEN conjunct1] a1 a2 by blast
  have c5: "backlogs (fst ?b2) = backlogs (fst ?b1)"
    using inst [where r = backlog_row and d' = "fst ?b1" and reasons = "fst (snd ?b1)"
        and d'' = "fst ?b2" and reasons' = "fst (snd ?b2)",
        THEN conjunct2, THEN conjunct2, THEN conjunct2, THEN conjunct2, THEN conjunct1] b1 b2
    by blast
  have "length (testScores (fst ?t2)) = length (testScores records_db) + 2"
    using inst [where r = testscore_row and d' = "fst ?t1" and reasons = "fst (snd ?t1)"
        and d'' = "fst ?t2" and reasons' = "fst (snd ?t2)",
        THEN conjunct2, THEN conjunct2, THEN conjunct2, THEN conjunct2, THEN conjunct2] t1 t2
    by blast
  also have "\<dots> = 3" by code_simp
  finally have c6: "length (testScores (fst ?t2)) = 3" .
  show ?thesis using c1 c2 c3 c4 c5 c6 by (intro conjI)
qed

lemma attendance_written:
  assumes acc: "attendance_pass B gw i r d = (d', reasons, True)"
  shows "\<exists>t k. parse_month B (str r ''month'') = Inr t
           \<and> findFirst (\<lambda>a. at_studentId a = str r ''studentId''
                             \<and> at_courseId a = str r ''courseId'' \<and> at_month a = t)
                (attendances d') = Some k
           \<and> attendances d' ! k =
               \<lparr>at_studentId = str r ''studentId'', at_courseId = str r ''courseId'',
                at_month = t, at_attendancePercent = parseFloat B (str r ''attendancePercent'')\<rparr>"
proof -
  from attendance_pass_accepted [OF acc] obtain st d1 t where
    t: "parse_month B (str r ''month'') = Inr t"
    and up: "upsert_attendance gw i (str r ''studentId'') (str r ''courseId'') t
               (parseFloat B (str r ''attendancePercent'')) d1 = (d', reasons, True)"
    by auto
  from upsert_attendance_written [OF up] t show ?thesis by blast
qed

lemma attendance_other:
  assumes acc: "attendance_pass B gw i r d = (d', reasons, True)"
    and t: "parse_month B (str r ''month'') = Inr t"
    and j: "j < length (attendances d)" "at_month (attendances d ! j) \<noteq> t"
  shows "j < length (attendances d') \<and> attendances d' ! j = attendances d ! j"
proof -
  let ?P = "\<lambda>a. at_studentId a = str r ''studentId'' \<and> at_courseId a = str r ''courseId''
                 \<and> at_month a = t"
  from attendance_pass_accepted [OF acc] t obtain st d1 where
    d1: "ensure_course gw i (str r ''courseId'') st d = Inr d1"
    and up: "upsert_attendance gw i (str r ''studentId'') (str r ''courseId'') t
               (parseFloat B (str r ''attendancePercent'')) d1 = (d', reasons, True)"
    by auto
  from ensure_course_frame [OF d1] have same: "attendances d1 = attendances d" by simp
  show ?thesis
  proof (cases "findFirst ?P (attendances d)")
    case None
    from upsert_attendance_accepted(3) [OF up] None same j show ?thesis
      by (simp add: nth_append)
  next
    case (Some k)
    from findFirst_Some [OF Some] j(2) have "k \<noteq> j" by auto
    with upsert_attendance_accepted(2) [OF up, of k] Some same j show ?thesis
      by simp
  qed
qed

lemma parse_month_short:
  "CHR ''-'' \<in> set month \<Longrightarrow> length month = 7 \<Longrightarrow>
   parse_month B month = Inr t \<longleftrightarrow> newDate B (month @ ''-01'') = Date t"
  by (auto simp: parse_month_def split: jsdate.splits)

lemma parse_month_long:
  "CHR ''-'' \<in> set month \<Longrightarrow> length month > 7 \<Longrightarrow>
   parse_month B month = Inr t \<longleftrightarrow> newDate B month = Date t"
  by (auto simp: parse_month_def split: jsdate.splits)

lemma attendance_two_rows:
  assumes one: "attendance_pass B gw i r d = (d', reasons, True)"
    and two: "attendance_pass B gw' i' r' d' = (d'', reasons', True)"
    and sid: "str r' ''studentId'' = str r ''studentId''"
    and cid: "str r' ''courseId'' = str r ''courseId''"
    and t: "parse_month B (str r ''month'') = Inr t"
    and t': "parse_month B (str r' ''month'') = Inr t'"
  shows "if t = t' then length (attendances d'') = length (attendances d')
         else (\<exists>k k'. k \<noteq> k' \<and> k < length (attendances d'') \<and> k' < length (attendances d'')
                 \<and> attendances d'' ! k =
                     \<lparr>at_studentId = str r ''studentId'', at_courseId = str r ''courseId'',
                      at_month = t,
                      at_attendancePercent = parseFloat B (str r ''attendancePercent'')\<rparr>
                 \<and> attendances d'' ! k' =
                     \<lparr>at_studentId = str r ''studentId'', at_courseId = str r ''courseId'',
                      at_month = t',
                      at_attendancePercent = parseFloat B (str r' ''attendancePercent'')\<rparr>)"
proof -
  let ?sid = "str r ''studentId''"
  let ?cid = "str r ''courseId''"
  from attendance_written [OF one] t obtain k where
    k: "findFirst (\<lambda>a. at_studentId a = ?sid \<and> at_courseId a = ?cid \<and> at_month a = t)
          (attendances d') = Some k"
    and rec: "attendances d' ! k =
               \<lparr>at_studentId = ?sid, at_courseId = ?cid, at_month = t,
                at_attendancePercent = parseFloat B (str r ''attendancePercent'')\<rparr>"
    by auto
  from findFirst_Some [OF k] have klen: "k < length (attendances d')" by simp
  show ?thesis
  proof (cases "t = t'")
    case True
    from k True have "findFirst (\<lambda>a. at_studentId a = str r' ''studentId''
                            \<and> at_courseId a = str r' ''courseId'' \<and> at_month a = t')
              (attendances d') = Some k"
      by (simp add: sid cid)
    from attendance_in_place [OF two t' this] True show ?thesis by simp
  next
    case False
    from rec False have "at_month (attendances d' ! k) \<noteq> t'" by simp
    from attendance_other [OF two t' klen this] rec
    have keep: "k < length (attendances d'')"
      "attendances d'' ! k = \<lparr>at_studentId = ?sid, at_courseId = ?cid, at_month = t,
                at_attendancePercent = parseFloat B (str r ''attendancePercent'')\<rparr>"
      by simp_all
    from attendance_written [OF two] t' obtain k' where
      k': "findFirst (\<lambda>a. at_studentId a = str r' ''studentId''
                         \<and> at_courseId a = str r' ''courseId'' \<and> at_month a = t')
            (attendances d'') = Some k'"
      and rec': "attendances d'' ! k' =
               \<lparr>at_studentId = str r' ''studentId'', at_courseId = str r' ''courseId'',
                at_month = t',
                at_attendancePercent = parseFloat B (str r' ''attendancePercent'')\<rparr>"
      by auto
    from findFirst_Some [OF k'] have k'len: "k' < length (attendances d'')" by simp
    from keep(2) rec' False have "k \<noteq> k'" by auto
    with keep k'len rec' False show ?thesis
      by (auto simp: sid cid)
  qed
qed

text \<open>
  Claim C3, as amended. The month key of an accepted attendance row is the date its month
  value parses to: the record the row writes is the first one with the row's student,
  course and that date. A value of 7 characters is parsed with \<open>-01\<close> appended (the first
  day of the month); a longer value is parsed as it is, day included, and is not truncated.
  Of two accepted rows for the same student and course, the second overwrites the record
  of the first (the table keeps its length) when the two values parse to the same date;
  when they parse to different dates, the table holds two different records afterwards,
  one for each date.
\<close>

theorem attendance_month_key:
  "(attendance_pass B gw i r d = (d', reasons, True)
    \<longrightarrow> (\<exists>t k. parse_month B (str r ''month'') = Inr t
           \<and> findFirst (\<lambda>a. at_studentId a = str r ''studentId''
                             \<and> at_courseId a = str r ''courseId'' \<and> at_month a = t)
                (attendances d') = Some k
           \<and> attendances d' ! k =
               \<lparr>at_studentId = str r ''studentId'', at_courseId = str r ''courseId'',
                at_month = t, at_attendancePercent = parseFloat B (str r ''attendancePercent'')\<rparr>))
   \<and> (CHR ''-'' \<in> set month \<and> length month = 7
    \<longrightarrow> (parse_month B month = Inr monthDate \<longleftrightarrow> newDate B (month @ ''-01'') = Date monthDate))
   \<and> (CHR ''-'' \<in> set month \<and> length month > 7
    \<longrightarrow> (parse_month B month = Inr monthDate \<longleftrightarrow> newDate B month = Date monthDate))
   \<and> (attendance_pass B gw i r d = (d', reasons, True)
      \<and> attendance_pass B gw' i' r' d' = (d'', reasons', True)
      \<and> str r' ''studentId'' = str r ''studentId'' \<and> str r' ''courseId'' = str r ''courseId''
      \<and> parse_month B (str r ''month'') = Inr t \<and> parse_month B (str r' ''month'') = Inr t'
    \<longrightarrow> (if t = t' then length (attendances d'') = length (attendances d')
         else (\<exists>k k'. k \<noteq> k' \<and> k < length (attendances d'') \<and> k' < length (attendances d'')
                 \<and> attendances d'' ! k =
                     \<lparr>at_studentId = str r ''studentId'', at_courseId = str r ''courseId'',
                      at_month = t,
                      at_attendancePercent = parseFloat B (str r ''attendancePercent'')\<rparr>
                 \<and> attendances d'' ! k' =
                     \<lparr>at_studentId = str r ''studentId'', at_courseId = str r ''courseId'',
                      at_month = t',
                      at_attendancePercent = parseFloat B (str r' ''attendancePercent'')\<rparr>)))"
proof (intro conjI impI)
  assume "attendance_pass B gw i r d = (d', reasons, True)"
  then show "\<exists>t k. parse_month B (str r ''month'') = Inr t
           \<and> findFirst (\<lambda>a. at_studentId a = str r ''studentId''
                             \<and> at_courseId a = str r ''courseId'' \<and> at_month a = t)
                (attendances d') = Some k
           \<and> attendances d' ! k =
               \<lparr>at_studentId = str r ''studentId'', at_courseId = str r ''courseId'',
                at_month = t, at_attendancePercent = parseFloat B (str r ''attendancePercent'')\<rparr>"
    by (rule attendance_written)
next
  assume "CHR ''-'' \<in> set month \<and> length month = 7"
  then show "parse_month B month = Inr monthDate \<longleftrightarrow> newDate B (month @ ''-01'') = Date monthDate"
    using parse_month_short [of month B monthDate] by (elim conjE)
next
  assume "CHR ''-'' \<in> set month \<and> length month > 7"
  then show "parse_month B month = Inr monthDate \<longleftrightarrow> newDate B month = Date monthDate"
    using parse_month_long [of month B monthDate] by (elim conjE)
next
  assume "attendance_pass B gw i r d = (d', reasons, True)
      \<and> attendance_pass B gw' i' r' d' = (d'', reasons', True)
      \<and> str r' ''studentId'' = str r ''studentId'' \<and> str r' ''courseId'' = str r ''courseId''
      \<and> parse_month B (str r ''month'') = Inr t \<and> parse_month B (str r' ''month'') = Inr t'"
  then show "if t = t' then length (attendances d'') = length (attendances d')
         else (\<exists>k k'. k \<noteq> k' \<and> k < length (attendances d'') \<and> k' < length (attendances d'')
                 \<and> attendances d'' ! k =
                     \<lparr>at_studentId = str r ''studentId'', at_courseId = str r ''courseId'',
                      at_month = t,
                      at_attendancePercent = parseFloat B (str r ''attendancePercent'')\<rparr>
                 \<and> attendances d'' ! k' =
                     \<lparr>at_studentId = str r ''studentId'', at_courseId = str r ''courseId'',
                      at_month = t',
                      at_attendancePercent = parseFloat B (str r' ''attendancePercent'')\<rparr>)"
    using attendance_two_rows [of B gw i r d d' reasons gw' i' r' d'' reasons' t t']
    by (elim conjE)
qed


theorem attendance_month_key_witness:
  "parse_month sample_builtins ''2024-03'' = Inr 1709251200000
   \<and> parse_month sample_builtins ''2024-03-15'' = Inr 1710460800000
   \<and> at_month (attendances (fst (attendance_pass sample_builtins no_faults 0
          (attendance_row ''2024-03'' ''80'') one_student_db)) ! 0) = 1709251200000
   \<and> length (attendances (fst (attendance_pass sample_builtins no_faults 1
          (attendance_row ''2024-03-01'' ''90'')
          (fst (attendance_pass sample_builtins no_faults 0
                 (attendance_row ''2024-03'' ''80'') one_student_db))))) = 1
   \<and> 2 \<le> length (attendances (fst (attendance_pass sample_builtins no_faults 1
          (attendance_row ''2024-03-15'' ''90'')
          (fst (attendance_pass sample_builtins no_faults 0
                 (attendance_row ''2024-03'' ''80'') one_student_db)))))"
proof -
  let ?B = sample_builtins
  let ?r = "attendance_row ''2024-03'' ''80''"
  let ?rs = "attendance_row ''2024-03-01'' ''90''"
  let ?rd = "attendance_row ''2024-03-15'' ''90''"
  let ?a1 = "attendance_pass ?B no_faults 0 ?r one_student_db"
  let ?a2 = "attendance_pass ?B no_faults 1 ?rs (fst ?a1)"
  let ?a3 = "attendance_pass ?B no_faults 1 ?rd (fst ?a1)"
  have a1: "?a1 = (fst ?a1, fst (snd ?a1), True)"
    by (rule pass_accepted_eq) code_simp
  have a2: "?a2 = (fst ?a2, fst (snd ?a2), True)"
    by (rule pass_accepted_eq) code_simp
  have a3: "?a3 = (fst ?a3, fst (snd ?a3), True)"
    by (rule pass_accepted_eq) code_simp
  have h7: "CHR ''-'' \<in> set ''2024-03'' \<and> length ''2024-03'' = 7" by simp
  have h10: "CHR ''-'' \<in> set ''2024-03-15'' \<and> length ''2024-03-15'' > 7" by simp
  have nd1: "newDate ?B (''2024-03'' @ ''-01'') = Date 1709251200000" by code_simp
  have nd2: "newDate ?B ''2024-03-15'' = Date 1710460800000" by code_simp
  have c1: "parse_month ?B ''2024-03'' = Inr 1709251200000"
    using attendance_month_key [where B = ?B and month = "''2024-03''" and monthDate = 1709251200000,
        THEN conjunct2, THEN conjunct1] h7 nd1 by blast
  have c2: "parse_month ?B ''2024-03-15'' = Inr 1710460800000"
    using attendance_month_key [where B = ?B and month = "''2024-03-15''" and monthDate = 1710460800000,
        THEN conjunct2, THEN conjunct2, THEN conjunct1] h10 nd2 by blast
  have sid: "str ?rs ''studentId'' = str ?r ''studentId''" "str ?rd ''studentId'' = str ?r ''studentId''"
    and cid: "str ?rs ''courseId'' = str ?r ''courseId''" "str ?rd ''courseId'' = str ?r ''courseId''"
    by code_simp+
  have m: "parse_month ?B (str ?r ''month'') = Inr 1709251200000"
    "parse_month ?B (str ?rs ''month'') = Inr 1709251200000"
    "parse_month ?B (str ?rd ''month'') = Inr 1710460800000"
    by code_simp+
  have len1: "length (attendances (fst ?a1)) = 1" by code_simp
  from attendance_month_key [where B = ?B and gw = no_faults and i = 0 and r = ?r
      and d = one_student_db and d' = "fst ?a1" and reasons = "fst (snd ?a1)", THEN conjunct1] a1
  obtain t k where tk: "parse_month ?B (str ?r ''month'') = Inr t"
    "findFirst (\<lambda>a. at_studentId a = str ?r ''studentId''
                  \<and> at_courseId a = str ?r ''courseId'' \<and> at_month a = t)
       (attendances (fst ?a1)) = Some k"
    "at_month (attendances (fst ?a1) ! k) = t"
    by auto
  from tk(1) m(1) have "t = 1709251200000" by simp
  moreover from findFirst_Some [OF tk(2)] len1 have "k = 0" by simp
  ultimately have c3: "at_month (attendances (fst ?a1) ! 0) = 1709251200000"
    using tk(3) by simp
  have "if (1709251200000::int) = 1709251200000
        then length (attendances (fst ?a2)) = length (attendances (fst ?a1))
        else (\<exists>k k'. k \<noteq> k' \<and> k < length (attendances (fst ?a2)) \<and> k' < length (attendances (fst ?a2))
                 \<and> attendances (fst ?a2) ! k =
                     \<lparr>at_studentId = str ?r ''studentId'', at_courseId = str ?r ''courseId'',
                      at_month = 1709251200000,
                      at_attendancePercent = parseFloat ?B (str ?r ''attendancePercent'')\<rparr>
                 \<and> attendances (fst ?a2) ! k' =
                     \<lparr>at_studentId = str ?r ''studentId'', at_courseId = str ?r ''courseId'',
                      at_month = 1709251200000,
                      at_attendancePercent = parseFloat ?B (str ?rs ''attendancePercent'')\<rparr>)"
    using attendance_month_key [where B = ?B and gw = no_faults and i = 0 and r = ?r
      and d = one_student_db and d' = "fst ?a1" and reasons = "fst (snd ?a1)"
      and gw' = no_faults and i' = 1 and r' = ?rs and d'' = "fst ?a2" and reasons' = "fst (snd ?a2)"
      and t = 1709251200000 and t' = 1709251200000,
      THEN conjunct2, THEN conjunct2, THEN conjunct2] a1 a2 sid(1) cid(1) m(1) m(2)
    by blast
  then have c4: "length (attendances (fst ?a2)) = 1"
    using len1 by simp
  have "if (1709251200000::int) = 1710460800000
        then length (attendances (fst ?a3)) = length (attendances (fst ?a1))
        else (\<exists>k k'. k \<noteq> k' \<and> k < length (attendances (fst ?a3)) \<and> k' < length (attendances (fst ?a3))
                 \<and> attendances (fst ?a3) ! k =
                     \<lparr>at_studentId = str ?r ''studentId'', at_courseId = str ?r ''courseId'',
                      at_month = 1709251200000,
                      at_attendancePercent = parseFloat ?B (str ?r ''attendancePercent'')\<rparr>
                 \<and> attendances (fst ?a3) ! k' =
                     \<lparr>at_studentId = str ?r ''studentId'', at_courseId = str ?r ''courseId'',
                      at_month = 1710460800000,
                      at_attendancePercent = parseFloat ?B (str ?rd ''attendancePercent'')\<rparr>)"
    using attendance_month_key [where B = ?B and gw = no_faults and i = 0 and r = ?r
      and d = one_student_db and d' = "fst ?a1" and reasons = "fst (snd ?a1)"
      and gw' = no_faults and i' = 1 and r' = ?rd and d'' = "fst ?a3" and reasons' = "fst (snd ?a3)"
      and t = 1709251200000 and t' = 1710460800000,
      THEN conjunct2, THEN conjunct2, THEN conjunct2] a1 a3 sid(2) cid(2) m(1) m(3)
    by blast
  then obtain k k' where "k \<noteq> k'" "k < length (attendances (fst ?a3))"
    "k' < length (attendances (fst ?a3))"
    by auto
  then have c5: "2 \<le> length (attendances (fst ?a3))" by linarith
  show ?thesis using c1 c2 c3 c4 c5 by (intro conjI)
qed

text \<open>
  The claim C3 as stated fails: the month values \<open>2024-03\<close> and \<open>2024-03-15\<close> lie in the
  same calendar month, and the two rows create two attendance records, keyed 2024-03-01
  and 2024-03-15.
\<close>

theorem attendance_same_month_two_records:
  "fst (POST sample_builtins no_faults (Some ''T1'')
         (Some (''studentId,courseId,month,attendancePercent'' @ [nl]
                @ ''S1,C1,2024-03,80'' @ [nl]
                @ ''S1,C1,2024-03-15,90''))
         (Some ''attendance'') one_student_db)
     = Success_response 2 2 []
   \<and> attendances (snd (POST sample_builtins no_faults (Some ''T1'')
         (Some (''studentId,courseId,month,attendancePercent'' @ [nl]
                @ ''S1,C1,2024-03,80'' @ [nl]
                @ ''S1,C1,2024-03-15,90''))
         (Some ''attendance'') one_student_db))
     = [\<lparr>at_studentId = ''S1'', at_courseId = ''C1'', at_month = 1709251200000,
         at_attendancePercent = Finite 80\<rparr>,
        \<lparr>at_studentId = ''S1'', at_courseId = ''C1'', at_month = 1710460800000,
         at_attendancePercent = Finite 90\<rparr>]"
  by code_simp

lemma resolve_batch_students: "students (fst (resolve_batch gw i r d)) = students d"
  by (auto simp: resolve_batch_def Let_def split: option.splits sum.splits prod.splits)

lemma upsert_student_keeps:
  assumes up: "upsert_student gw teacherId i r dobDate semester finalBatchId d = Inr d2"
    and s: "students d studentId = Some s"
  shows "\<exists>s'. students d2 studentId = Some s'
           \<and> (truthy (st_teacherId s) \<longrightarrow> st_teacherId s' = st_teacherId s)
           \<and> (\<not> truthy (st_teacherId s) \<longrightarrow>
                 st_teacherId s' = st_teacherId s \<or> st_teacherId s' = Some teacherId)"
  using up s
  by (auto simp: upsert_student_def Let_def split: option.splits if_splits)

lemma upsert_student_claims:
  assumes up: "upsert_student gw teacherId i r dobDate semester finalBatchId d = Inr d2"
    and s: "students d (str r ''studentId'') = Some s"
    and orphan: "\<not> truthy (st_teacherId s)"
  shows "\<exists>s'. students d2 (str r ''studentId'') = Some s' \<and> st_teacherId s' = Some teacherId"
  using up s orphan
  by (auto simp: upsert_student_def Let_def split: option.splits if_splits)

lemma students_pass_cases:
  "(\<exists>reasons. students_pass B gw teacherId i r d = (d, reasons, False))
   \<or> (\<exists>dobDate semester d1 finalBatchId batchErrors.
         resolve_batch gw i r d = (d1, finalBatchId, batchErrors)
         \<and> ((\<exists>m. upsert_student gw teacherId i r dobDate semester finalBatchId d1 = Inl m
                  \<and> students_pass B gw teacherId i r d
                      = (d1, batchErrors @ [''Database error - '' @ m], False))
            \<or> (\<exists>d2. upsert_student gw teacherId i r dobDate semester finalBatchId d1 = Inr d2
                  \<and> students_pass B gw teacherId i r d = (d2, batchErrors, True))))"
  by (auto simp: students_pass_def skipped_def
           split: option.splits jsdate.splits sum.splits prod.splits)

lemma students_pass_keeps:
  assumes s: "students d studentId = Some s"
  shows "\<exists>s'. students (fst (students_pass B gw teacherId i r d)) studentId = Some s'
           \<and> (truthy (st_teacherId s) \<longrightarrow> st_teacherId s' = st_teacherId s)
           \<and> (\<not> truthy (st_teacherId s) \<longrightarrow>
                 st_teacherId s' = st_teacherId s \<or> st_teacherId s' = Some teacherId)"
proof -
  from students_pass_cases [of B gw teacherId i r d]
  consider (same) reasons where "students_pass B gw teacherId i r d = (d, reasons, False)"
    | (batch) d1 finalBatchId batchErrors reasons where
        "resolve_batch gw i r d = (d1, finalBatchId, batchErrors)"
        "students_pass B gw teacherId i r d = (d1, reasons, False)"
    | (upsert) dobDate semester d1 finalBatchId batchErrors d2 where
        "resolve_batch gw i r d = (d1, finalBatchId, batchErrors)"
        "upsert_student gw teacherId i r dobDate semester finalBatchId d1 = Inr d2"
        "students_pass B gw teacherId i r d = (d2, batchErrors, True)"
    by blast
  then show ?thesis
  proof cases
    case same
    with s show ?thesis by simp
  next
    case batch
    from resolve_batch_students [of gw i r d] batch(1) have "students d1 = students d" by simp
    with s batch(2) show ?thesis by simp
  next
    case upsert
    from resolve_batch_students [of gw i r d] upsert(1) have "students d1 = students d" by simp
    with s have "students d1 studentId = Some s" by simp
    from upsert_student_keeps [OF upsert(2) this] upsert(3) show ?thesis by simp
  qed
qed

lemma students_pass_claims:
  assumes acc: "students_pass B gw teacherId i r d = (d', reasons, True)"
    and s: "students d (str r ''studentId'') = Some s"
    and orphan: "\<not> truthy (st_teacherId s)"
  shows "\<exists>s'. students d' (str r ''studentId'') = Some s' \<and> st_teacherId s' = Some teacherId"
proof -
  from students_pass_cases [of B gw teacherId i r d] acc
  obtain dobDate semester d1 finalBatchId batchErrors where
    rb: "resolve_batch gw i r d = (d1, finalBatchId, batchErrors)"
    and up: "upsert_student gw teacherId i r dobDate semester finalBatchId d1 = Inr d'"
    by auto
  from resolve_batch_students [of gw i r d] rb have "students d1 = students d" by simp
  with s have "students d1 (str r ''studentId'') = Some s" by simp
  from upsert_student_claims [OF up this orphan] show ?thesis .
qed

lemma store_step: "store (step body i r p) = fst (body i r (store p))"
  by (simp add: step_def split: prod.splits)

lemma for_rows_students_keeps:
  "students (store p) studentId = Some s \<Longrightarrow>
   \<exists>s'. students (store (for_rows (students_pass B gw teacherId) i rows p)) studentId = Some s'
      \<and> (truthy (st_teacherId s) \<longrightarrow> st_teacherId s' = st_teacherId s)
      \<and> (\<not> truthy (st_teacherId s) \<longrightarrow>
            st_teacherId s' = st_teacherId s \<or> st_teacherId s' = Some teacherId)"
proof (induction rows arbitrary: i p s)
  case Nil
  then show ?case by simp
next
  case (Cons r rows)
  let ?p1 = "step (students_pass B gw teacherId) i r p"
  from students_pass_keeps [OF Cons.prems, of B gw teacherId i r]
  obtain s1 where s1: "students (store ?p1) studentId = Some s1"
    and k1: "truthy (st_teacherId s) \<longrightarrow> st_teacherId s1 = st_teacherId s"
            "\<not> truthy (st_teacherId s) \<longrightarrow>
               st_teacherId s1 = st_teacherId s \<or> st_teacherId s1 = Some teacherId"
    by (auto simp: store_step)
  from Cons.IH [OF s1, of "Suc i"]
  obtain s' where s': "students (store (for_rows (students_pass B gw teacherId) (Suc i) rows ?p1))
                         studentId = Some s'"
    and k2: "truthy (st_teacherId s1) \<longrightarrow> st_teacherId s' = st_teacherId s1"
            "\<not> truthy (st_teacherId s1) \<longrightarrow>
               st_teacherId s' = st_teacherId s1 \<or> st_teacherId s' = Some teacherId"
    by blast
  have "truthy (st_teacherId s) \<longrightarrow> st_teacherId s' = st_teacherId s"
    using k1 k2 by auto
  moreover have "\<not> truthy (st_teacherId s) \<longrightarrow>
               st_teacherId s' = st_teacherId s \<or> st_teacherId s' = Some teacherId"
    using k1 k2 by (cases "truthy (st_teacherId s1)") auto
  ultimately show ?case using s' by simp
qed

lemma POST_students_keeps:
  assumes post: "POST B gw teacherId upload (Some ''students'') d = (response, d')"
    and s: "students d studentId = Some s"
  shows "\<exists>s'. students d' studentId = Some s'
      \<and> (truthy (st_teacherId s) \<longrightarrow> st_teacherId s' = st_teacherId s)
      \<and> (\<not> truthy (st_teacherId s) \<longrightarrow>
            st_teacherId s' = st_teacherId s \<or> st_teacherId s' = teacherId)"
proof (cases "d' = d")
  case True
  with s show ?thesis by simp
next
  case False
  let ?rows = "parseCSV (case upload of Some csvText \<Rightarrow> csvText | None \<Rightarrow> [])"
  from False post have t: "truthy teacherId"
    by (auto simp: POST_def split: if_splits)
  then obtain tid where tid: "teacherId = Some tid" "or_default teacherId [] = tid"
    by (cases teacherId) (auto simp: truthy_def or_default_def)
  from False post
  have "d' = store (for_rows (students_pass B gw tid) 0 ?rows
                     \<lparr>store = d, errors = [], processed = 0\<rparr>)"
    by (auto simp: POST_def Let_def body_of_def or_default_def truthy_def tid
             split: if_splits option.splits)
  with for_rows_students_keeps [of "\<lparr>store = d, errors = [], processed = 0\<rparr>" studentId s
      B gw tid 0 ?rows] s tid
  show ?thesis by simp
qed

text \<open>
  Claim C4. A student record has one \<open>teacherId\<close> field, so a student never has more than
  one owning teacher. Over a whole students upload, whatever the rows and whichever gateway
  calls throw, every student of the store is still there afterwards; if it had an owning
  teacher (a \<open>teacherId\<close> that is not \<open>null\<close> and not empty, as the handler tests it),
  it has the same one, and if it had none, it has none still or the uploading teacher. A
  row that is processed for an existing student without teacher assigns the uploading
  teacher to it.
\<close>

theorem students_upload_keeps_teacher:
  "(POST B gw teacherId upload (Some ''students'') d = (response, d')
      \<and> students d studentId = Some s
    \<longrightarrow> (\<exists>s'. students d' studentId = Some s'
          \<and> (truthy (st_teacherId s) \<longrightarrow> st_teacherId s' = st_teacherId s)
          \<and> (\<not> truthy (st_teacherId s) \<longrightarrow>
                st_teacherId s' = st_teacherId s \<or> st_teacherId s' = teacherId)))
   \<and> (students_pass B gw uploader i r d = (d', reasons, True)
      \<and> students d (str r ''studentId'') = Some s \<and> \<not> truthy (st_teacherId s)
    \<longrightarrow> (\<exists>s'. students d' (str r ''studentId'') = Some s' \<and> st_teacherId s' = Some uploader))"
proof (intro conjI impI)
  assume "POST B gw teacherId upload (Some ''students'') d = (response, d')
      \<and> students d studentId = Some s"
  then show "\<exists>s'. students d' studentId = Some s'
          \<and> (truthy (st_teacherId s) \<longrightarrow> st_teacherId s' = st_teacherId s)
          \<and> (\<not> truthy (st_teacherId s) \<longrightarrow>
                st_teacherId s' = st_teacherId s \<or> st_teacherId s' = teacherId)"
    using POST_students_keeps [of B gw teacherId upload d response d' studentId s] by (elim conjE)
next
  assume "students_pass B gw uploader i r d = (d', reasons, True)
      \<and> students d (str r ''studentId'') = Some s \<and> \<not> truthy (st_teacherId s)"
  then show "\<exists>s'. students d' (str r ''studentId'') = Some s' \<and> st_teacherId s' = Some uploader"
    using students_pass_claims [of B gw uploader i r d d' reasons s] by (elim conjE)
qed


theorem students_upload_keeps_teacher_witness:
  "map_option st_teacherId
     (students (snd (POST sample_builtins no_faults (Some ''T1'')
        (Some (''studentId,name,email,dob,currentSemester'' @ [nl]
               @ ''S1,Alicia,al@x.com,2001-02-03,4'' @ [nl]
               @ ''S2,Bob,b@x.com,2000-01-01,3''))
        (Some ''students'') orphan_db)) ''S1'') = Some (Some ''T0'')
   \<and> map_option st_name
     (students (snd (POST sample_builtins no_faults (Some ''T1'')
        (Some (''studentId,name,email,dob,currentSemester'' @ [nl]
               @ ''S1,Alicia,al@x.com,2001-02-03,4'' @ [nl]
               @ ''S2,Bob,b@x.com,2000-01-01,3''))
        (Some ''students'') orphan_db)) ''S1'') = Some ''Alicia''
   \<and> map_option st_teacherId
     (students (fst (students_pass sample_builtins no_faults ''T1'' 0 (student_row ''S2'' None)
        orphan_db)) ''S2'') = Some (Some ''T1'')"
proof -
  let ?csv = "''studentId,name,email,dob,currentSemester'' @ [nl]
               @ ''S1,Alicia,al@x.com,2001-02-03,4'' @ [nl]
               @ ''S2,Bob,b@x.com,2000-01-01,3''"
  let ?post = "POST sample_builtins no_faults (Some ''T1'') (Some ?csv) (Some ''students'') orphan_db"
  let ?s1 = "\<lparr>st_name = ''Alice'', st_email = ''a@x.com'', st_phone = None, st_dob = 0,
                 st_department = None, st_currentSemester = 3, st_batchId = None,
                 st_teacherId = Some ''T0'', st_parentName = None, st_parentEmail = None,
                 st_parentPhone = None, st_address = None\<rparr>"
  let ?s2 = "\<lparr>st_name = ''Bo'', st_email = ''bo@x.com'', st_phone = None, st_dob = 0,
                 st_department = None, st_currentSemester = 1, st_batchId = None,
                 st_teacherId = None, st_parentName = None, st_parentEmail = None,
                 st_parentPhone = None, st_address = None\<rparr>"
  let ?pass = "students_pass sample_builtins no_faults ''T1'' 0 (student_row ''S2'' None) orphan_db"
  have post: "?post = (fst ?post, snd ?post)" by simp
  have s1: "students orphan_db ''S1'' = Some ?s1" by code_simp
  have owned: "truthy (st_teacherId ?s1)" by code_simp
  from students_upload_keeps_teacher [where B = sample_builtins and gw = no_faults
      and teacherId = "Some ''T1''" and upload = "Some ?csv" and d = orphan_db
      and response = "fst ?post" and d' = "snd ?post" and studentId = "''S1''" and s = ?s1,
      THEN conjunct1] post s1
  obtain s' where "students (snd ?post) ''S1'' = Some s'"
    "truthy (st_teacherId ?s1) \<longrightarrow> st_teacherId s' = st_teacherId ?s1"
    by blast
  with owned have c1: "map_option st_teacherId (students (snd ?post) ''S1'') = Some (Some ''T0'')"
    by simp
  have c2: "map_option st_name (students (snd ?post) ''S1'') = Some ''Alicia''" by code_simp
  have pass: "?pass = (fst ?pass, fst (snd ?pass), True)"
    by (rule pass_accepted_eq) code_simp
  have s2: "students orphan_db (str (student_row ''S2'' None) ''studentId'') = Some ?s2" by code_simp
  have orphan: "\<not> truthy (st_teacherId ?s2)" by code_simp
  have sid: "str (student_row ''S2'' None) ''studentId'' = ''S2''" by code_simp
  from students_upload_keeps_teacher [where B = sample_builtins and gw = no_faults
      and uploader = "''T1''" and i = 0 and r = "student_row ''S2'' None" and d = orphan_db
      and d' = "fst ?pass" and reasons = "fst (snd ?pass)" and s = ?s2,
      THEN conjunct2] pass s2 orphan
  obtain s'' where "students (fst ?pass) (str (student_row ''S2'' None) ''studentId'') = Some s''"
    "st_teacherId s'' = Some ''T1''"
    by blast
  then have c3: "map_option st_teacherId (students (fst ?pass) ''S2'') = Some (Some ''T1'')"
    unfolding sid by simp
  show ?thesis using c1 c2 c3 by (intro conjI)
qed

lemma non_student_types_iff:
  "type \<in> set non_student_types \<longleftrightarrow>
     type = ''attendance'' \<or> type = ''testscores'' \<or> type = ''backlogs'' \<or> type = ''fees''
     \<or> type = ''projects'' \<or> type = ''phd'' \<or> type = ''fellowships''"
  unfolding non_student_types_def by (simp only: list.set insert_iff empty_iff simp_thms)

lemma course_types_iff:
  "type \<in> set course_types \<longleftrightarrow>
     type = ''attendance'' \<or> type = ''testscores'' \<or> type = ''backlogs''"
  unfolding course_types_def by (simp only: list.set insert_iff empty_iff simp_thms)

lemma body_of_attendance: "body_of B gw t ''attendance'' = Some (attendance_pass B gw)"
  by (simp add: body_of_def)
lemma body_of_testscores: "body_of B gw t ''testscores'' = Some (testscores_pass B gw)"
  by (simp add: body_of_def)
lemma body_of_backlogs: "body_of B gw t ''backlogs'' = Some (backlogs_pass gw)"
  by (simp add: body_of_def)
lemma body_of_fees: "body_of B gw t ''fees'' = Some (fees_pass B gw)"
  by (simp add: body_of_def)
lemma body_of_projects: "body_of B gw t ''projects'' = Some (projects_pass B gw t)"
  by (simp add: body_of_def)
lemma body_of_phd: "body_of B gw t ''phd'' = Some (phd_pass B gw t)"
  by (simp add: body_of_def)
lemma body_of_fellowships: "body_of B gw t ''fellowships'' = Some (fellowships_pass B gw t)"
  by (simp add: body_of_def)

lemma validator_of_simps:
  "validator_of ''attendance'' = validateAttendanceRow"
  "validator_of ''testscores'' = validateTestScoreRow"
  "validator_of ''backlogs'' = validateBacklogRow"
  "validator_of ''fees'' = validateFeeRow"
  "validator_of ''projects'' = validateProjectRow"
  "validator_of ''phd'' = validatePhdRow"
  "validator_of ''fellowships'' = validateFellowshipRow"
  by (simp_all add: validator_of_def)

lemma ensure_course_created:
  "gw i FindCourse = None \<Longrightarrow> gw i CreateCourse = None \<Longrightarrow> courses d courseId = None \<Longrightarrow>
   ensure_course gw i courseId st d
     = Inr (d\<lparr>courses := (courses d)(courseId \<mapsto> placeholder_course courseId st)\<rparr>)"
  by (simp add: ensure_course_def)

lemma ensure_course_found:
  "gw i FindCourse = None \<Longrightarrow> courses d courseId = Some c \<Longrightarrow>
   ensure_course gw i courseId st d = Inr d"
  by (simp add: ensure_course_def)

lemma not_found_passes:
  assumes find: "gw i FindStudent = None"
    and none: "students d (str r ''studentId'') = None"
  shows "validateAttendanceRow r = None \<Longrightarrow>
           attendance_pass B gw i r d = skipped d (''Student '' @ str r ''studentId'' @ '' not found'')"
    and "validateTestScoreRow r = None \<Longrightarrow>
           testscores_pass B gw i r d = skipped d (''Student '' @ str r ''studentId'' @ '' not found'')"
    and "validateBacklogRow r = None \<Longrightarrow>
           backlogs_pass gw i r d = skipped d (''Student '' @ str r ''studentId'' @ '' not found'')"
    and "validateFeeRow r = None \<Longrightarrow>
           fees_pass B gw i r d = skipped d (''Student '' @ str r ''studentId'' @ '' not found'')"
    and "validateProjectRow r = None \<Longrightarrow>
           projects_pass B gw t i r d = skipped d (''Student '' @ str r ''studentId'' @ '' not found'')"
    and "validatePhdRow r = None \<Longrightarrow>
           phd_pass B gw t i r d = skipped d (''Student '' @ str r ''studentId'' @ '' not found'')"
    and "validateFellowshipRow r = None \<Longrightarrow>
           fellowships_pass B gw t i r d = skipped d (''Student '' @ str r ''studentId'' @ '' not found'')"
  using find none
  by (simp_all add: attendance_pass_def testscores_pass_def backlogs_pass_def fees_pass_def
        projects_pass_def phd_pass_def fellowships_pass_def)

lemma not_found_pass:
  assumes ty: "type \<in> set non_student_types"
    and body: "body_of B gw teacherId type = Some body"
    and valid: "validator_of type r = None"
    and find: "gw i FindStudent = None"
    and none: "students d (str r ''studentId'') = None"
  shows "body i r d = (d, [''Student '' @ str r ''studentId'' @ '' not found''], False)"
proof -
  note nf = not_found_passes [where gw = gw and i = i and d = d and r = r, OF find none,
      unfolded skipped_def]
  from ty have "type = ''attendance'' \<or> type = ''testscores'' \<or> type = ''backlogs''
     \<or> type = ''fees'' \<or> type = ''projects'' \<or> type = ''phd'' \<or> type = ''fellowships''"
    by (simp only: non_student_types_iff)
  then show ?thesis
  proof (elim disjE)
    assume t: "type = ''attendance''"
    from body valid show ?thesis
      unfolding t body_of_attendance validator_of_simps by (auto simp: nf)
  next
    assume t: "type = ''testscores''"
    from body valid show ?thesis
      unfolding t body_of_testscores validator_of_simps by (auto simp: nf)
  next
    assume t: "type = ''backlogs''"
    from body valid show ?thesis
      unfolding t body_of_backlogs validator_of_simps by (auto simp: nf)
  next
    assume t: "type = ''fees''"
    from body valid show ?thesis
      unfolding t body_of_fees validator_of_simps by (auto simp: nf)
  next
    assume t: "type = ''projects''"
    from body valid show ?thesis
      unfolding t body_of_projects validator_of_simps by (auto simp: nf)
  next
    assume t: "type = ''phd''"
    from body valid show ?thesis
      unfolding t body_of_phd validator_of_simps by (auto simp: nf)
  next
    assume t: "type = ''fellowships''"
    from body valid show ?thesis
      unfolding t body_of_fellowships validator_of_simps by (auto simp: nf)
  qed
qed

lemma upsert_attendance_students: "students (fst (upsert_attendance gw i a b t p d)) = students d"
  by (auto simp: upsert_attendance_def thrown_def completed_def split: option.splits)

lemma upsert_backlog_students: "students (fst (upsert_backlog gw i a b n c d)) = students d"
  by (auto simp: upsert_backlog_def thrown_def completed_def split: option.splits)

lemma attendance_pass_students: "students (fst (attendance_pass B gw i r d)) = students d"
  by (auto simp: attendance_pass_def skipped_def thrown_def Let_def upsert_attendance_students
           dest!: ensure_course_frame split: option.splits sum.splits)

lemma testscores_pass_students: "students (fst (testscores_pass B gw i r d)) = students d"
  by (auto simp: testscores_pass_def skipped_def thrown_def completed_def Let_def
           dest!: ensure_course_frame split: option.splits sum.splits jsdate.splits)

lemma backlogs_pass_students: "students (fst (backlogs_pass gw i r d)) = students d"
  by (auto simp: backlogs_pass_def skipped_def thrown_def Let_def upsert_backlog_students
           dest!: ensure_course_frame split: option.splits sum.splits)

lemma fees_pass_students: "students (fst (fees_pass B gw i r d)) = students d"
  by (auto simp: fees_pass_def skipped_def thrown_def completed_def Let_def
           split: option.splits sum.splits jsdate.splits)

lemma projects_pass_students: "students (fst (projects_pass B gw t i r d)) = students d"
  by (auto simp: projects_pass_def skipped_def thrown_def completed_def split: option.splits)

lemma phd_pass_students: "students (fst (phd_pass B gw t i r d)) = students d"
  by (auto simp: phd_pass_def skipped_def thrown_def completed_def split: option.splits)

lemma fellowships_pass_students: "students (fst (fellowships_pass B gw t i r d)) = students d"
  by (auto simp: fellowships_pass_def skipped_def thrown_def completed_def split: option.splits)

lemma non_student_pass_students:
  assumes ty: "type \<in> set non_student_types"
    and body: "body_of B gw teacherId type = Some body"
  shows "students (fst (body i r d)) = students d"
proof -
  from ty have "type = ''attendance'' \<or> type = ''testscores'' \<or> type = ''backlogs''
     \<or> type = ''fees'' \<or> type = ''projects'' \<or> type = ''phd'' \<or> type = ''fellowships''"
    by (simp only: non_student_types_iff)
  then show ?thesis
  proof (elim disjE)
    assume t: "type = ''attendance''"
    from body show ?thesis
      unfolding t body_of_attendance by (auto simp: attendance_pass_students)
  next
    assume t: "type = ''testscores''"
    from body show ?thesis
      unfolding t body_of_testscores by (auto simp: testscores_pass_students)
  next
    assume t: "type = ''backlogs''"
    from body show ?thesis
      unfolding t body_of_backlogs by (auto simp: backlogs_pass_students)
  next
    assume t: "type = ''fees''"
    from body show ?thesis
      unfolding t body_of_fees by (auto simp: fees_pass_students)
  next
    assume t: "type = ''projects''"
    from body show ?thesis
      unfolding t body_of_projects by (auto simp: projects_pass_students)
  next
    assume t: "type = ''phd''"
    from body show ?thesis
      unfolding t body_of_phd by (auto simp: phd_pass_students)
  next
    assume t: "type = ''fellowships''"
    from body show ?thesis
      unfolding t body_of_fellowships by (auto simp: fellowships_pass_students)
  qed
qed

lemma upsert_attendance_courses: "courses (fst (upsert_attendance gw i a b t p d)) = courses d"
  by (auto simp: upsert_attendance_def thrown_def completed_def split: option.splits)

lemma upsert_backlog_courses: "courses (fst (upsert_backlog gw i a b n c d)) = courses d"
  by (auto simp: upsert_backlog_def thrown_def completed_def split: option.splits)

lemma course_passes:
  assumes find: "gw i FindStudent = None"
    and st: "students d (str r ''studentId'') = Some st"
    and e: "ensure_course gw i (str r ''courseId'') st d = Inr d1"
  shows "validateAttendanceRow r = None \<Longrightarrow>
           attendance_pass B gw i r d =
             (case parse_month B (str r ''month'') of
                Inl reason \<Rightarrow> skipped d1 reason
              | Inr monthDate \<Rightarrow>
                  let attendancePercent = parseFloat B (str r ''attendancePercent'') in
                  if isNaN attendancePercent \<or> num_less attendancePercent 0
                     \<or> num_greater attendancePercent 100
                  then skipped d1 (''Invalid attendance percentage: '' @ str r ''attendancePercent'')
                  else upsert_attendance gw i (str r ''studentId'') (str r ''courseId'')
                         monthDate attendancePercent d1)"
    and "validateTestScoreRow r = None \<Longrightarrow>
           testscores_pass B gw i r d =
             (case newDate B (str r ''testDate'') of
                InvalidDate \<Rightarrow> skipped d1 (''Invalid test date: '' @ str r ''testDate'')
              | Date testDate \<Rightarrow>
                  let score = parseFloat B (str r ''score'') in
                  if isNaN score \<or> num_less score 0 \<or> num_greater score 100
                  then skipped d1 (''Invalid score: '' @ str r ''score'')
                  else
                    (case gw i CreateTestScore of
                       Some m \<Rightarrow> thrown d1 m
                     | None \<Rightarrow>
                         completed (d1\<lparr>testScores := testScores d1 @
                           [\<lparr>ts_studentId = str r ''studentId'',
                             ts_courseId = str r ''courseId'',
                             ts_testDate = testDate, ts_score = score\<rparr>]\<rparr>)))"
    and "validateBacklogRow r = None \<Longrightarrow>
           backlogs_pass gw i r d =
             (case parseInt (str r ''attempts'') of
                None \<Rightarrow> skipped d1 (''Invalid attempts: '' @ str r ''attempts'')
              | Some attempts \<Rightarrow>
                  if attempts < 1
                  then skipped d1 (''Invalid attempts: '' @ str r ''attempts'')
                  else upsert_backlog gw i (str r ''studentId'') (str r ''courseId'')
                         attempts (parse_cleared (str r ''cleared'')) d1)"
  using find st e
  by (simp_all add: attendance_pass_def testscores_pass_def backlogs_pass_def)

lemma course_passes_courses:
  assumes find: "gw i FindStudent = None"
    and st: "students d (str r ''studentId'') = Some st"
    and e: "ensure_course gw i (str r ''courseId'') st d = Inr d1"
  shows "validateAttendanceRow r = None \<Longrightarrow>
           courses (fst (attendance_pass B gw i r d)) = courses d1"
    and "validateTestScoreRow r = None \<Longrightarrow>
           courses (fst (testscores_pass B gw i r d)) = courses d1"
    and "validateBacklogRow r = None \<Longrightarrow>
           courses (fst (backlogs_pass gw i r d)) = courses d1"
proof -
  show "validateAttendanceRow r = None \<Longrightarrow>
           courses (fst (attendance_pass B gw i r d)) = courses d1"
    by (simp add: course_passes(1) [OF find st e] skipped_def Let_def upsert_attendance_courses
             split: sum.splits)
  show "validateTestScoreRow r = None \<Longrightarrow>
           courses (fst (testscores_pass B gw i r d)) = courses d1"
    by (simp add: course_passes(2) [OF find st e] skipped_def thrown_def completed_def Let_def
             split: jsdate.splits option.splits)
  show "validateBacklogRow r = None \<Longrightarrow>
           courses (fst (backlogs_pass gw i r d)) = courses d1"
    by (simp add: course_passes(3) [OF find st e] skipped_def upsert_backlog_courses
             split: option.splits)
qed

lemma course_created_pass:
  assumes ty: "type \<in> set course_types"
    and body: "body_of B gw teacherId type = Some body"
    and valid: "validator_of type r = None"
    and find: "gw i FindStudent = None" "gw i FindCourse = None" "gw i CreateCourse = None"
    and st: "students d (str r ''studentId'') = Some st"
    and none: "courses d (str r ''courseId'') = None"
  shows "body i r d = body i r (d\<lparr>courses := (courses d)
           (str r ''courseId'' \<mapsto> placeholder_course (str r ''courseId'') st)\<rparr>)
         \<and> courses (fst (body i r d)) (str r ''courseId'')
             = Some (placeholder_course (str r ''courseId'') st)"
proof -
  let ?cid = "str r ''courseId''"
  let ?d1 = "d\<lparr>courses := (courses d)(?cid \<mapsto> placeholder_course ?cid st)\<rparr>"
  have e0: "ensure_course gw i ?cid st d = Inr ?d1"
    using find(2,3) none by (rule ensure_course_created)
  have e1: "ensure_course gw i ?cid st ?d1 = Inr ?d1"
    using find(2) by (rule ensure_course_found) simp
  have st1: "students ?d1 (str r ''studentId'') = Some st" using st by simp
  have c1: "courses ?d1 ?cid = Some (placeholder_course ?cid st)" by simp
  from ty have "type = ''attendance'' \<or> type = ''testscores'' \<or> type = ''backlogs''"
    by (simp only: course_types_iff)
  then show ?thesis
  proof (elim disjE)
    assume t: "type = ''attendance''"
    from body have b: "body = attendance_pass B gw" unfolding t body_of_attendance by simp
    from valid have v: "validateAttendanceRow r = None" unfolding t validator_of_simps .
    show ?thesis
      unfolding b
      using course_passes(1) [OF find(1) st e0 v, of B] course_passes(1) [OF find(1) st1 e1 v, of B]
        course_passes_courses(1) [OF find(1) st e0 v, of B] c1 by simp
  next
    assume t: "type = ''testscores''"
    from body have b: "body = testscores_pass B gw" unfolding t body_of_testscores by simp
    from valid have v: "validateTestScoreRow r = None" unfolding t validator_of_simps .
    show ?thesis
      unfolding b
      using course_passes(2) [OF find(1) st e0 v, of B] course_passes(2) [OF find(1) st1 e1 v, of B]
        course_passes_courses(2) [OF find(1) st e0 v, of B] c1 by simp
  next
    assume t: "type = ''backlogs''"
    from body have b: "body = backlogs_pass gw" unfolding t body_of_backlogs by simp
    from valid have v: "validateBacklogRow r = None" unfolding t validator_of_simps .
    show ?thesis
      unfolding b
      using course_passes(3) [OF find(1) st e0 v] course_passes(3) [OF find(1) st1 e1 v]
        course_passes_courses(3) [OF find(1) st e0 v] c1 by simp
  qed
qed

lemma for_rows_students:
  assumes frame: "\<And>i r d. students (fst (body i r d)) = students d"
  shows "students (store (for_rows body i rows p)) = students (store p)"
proof (induction rows arbitrary: i p)
  case Nil
  show ?case by simp
next
  case (Cons r rows)
  have "students (store (for_rows body (Suc i) rows (step body i r p)))
        = students (store (step body i r p))"
    by (rule Cons.IH)
  also have "\<dots> = students (store p)"
    by (simp add: store_step frame)
  finally show ?case by simp
qed

lemma POST_non_student_students:
  assumes post: "POST B gw teacherId upload (Some type) d = (response, d')"
    and ty: "type \<in> set non_student_types"
  shows "students d' = students d"
proof (cases "d' = d")
  case True
  then show ?thesis by simp
next
  case False
  let ?rows = "parseCSV (case upload of Some csvText \<Rightarrow> csvText | None \<Rightarrow> [])"
  from False post have tr: "truthy (Some type)"
    by (auto simp: POST_def split: if_splits)
  then have ty_eq: "or_default (Some type) [] = type"
    by (simp add: or_default_def)
  from False post obtain body where
    body: "body_of B gw (or_default teacherId []) type = Some body"
    and d': "d' = store (for_rows body 0 ?rows \<lparr>store = d, errors = [], processed = 0\<rparr>)"
    by (auto simp: POST_def Let_def ty_eq split: if_splits option.splits)
  have "students (fst (body i r d0)) = students d0" for i r d0
    using ty body by (rule non_student_pass_students)
  then have "students (store (for_rows body 0 ?rows \<lparr>store = d, errors = [], processed = 0\<rparr>))
             = students (store \<lparr>store = d, errors = [], processed = 0\<rparr>)"
    by (rule for_rows_students)
  with d' show ?thesis by simp
qed

lemma not_found_step:
  assumes ty: "type \<in> set non_student_types"
    and body: "body_of B gw teacherId type = Some body"
    and valid: "validator_of type r = None"
    and find: "gw i FindStudent = None"
    and none: "students (store p) (str r ''studentId'') = None"
  shows "step body i r p =
           p\<lparr>errors := errors p @
                [row_message (processed p) (''Student '' @ str r ''studentId'' @ '' not found'')]\<rparr>"
  unfolding step_def not_found_pass [OF ty body valid find none] by simp

text \<open>
  Claim C6. For each of the seven types other than \<open>students\<close>: a row that has its
  required fields and names a student the store does not have (the lookup itself not
  throwing) leaves the store, and \<open>processed\<close>, as they were and adds the one entry
  \<open>Row n: Student <id> not found\<close>; and no upload of such a type ever changes the table of
  students. For attendance, testscores and backlogs, a row of an existing student that
  names a course the store does not have (the course calls not throwing) creates the
  placeholder course and then goes on exactly as it would had the course been there:
  the missing course is no reason to reject the row.
\<close>

theorem student_must_exist:
  "(type \<in> set non_student_types \<and> body_of B gw teacherId type = Some body
      \<and> validator_of type r = None \<and> gw i FindStudent = None
      \<and> students (store p) (str r ''studentId'') = None
    \<longrightarrow> step body i r p =
          p\<lparr>errors := errors p @
               [row_message (processed p) (''Student '' @ str r ''studentId'' @ '' not found'')]\<rparr>)
   \<and> (POST B gw uid upload (Some type) d = (response, d')
      \<and> type \<in> set non_student_types
    \<longrightarrow> students d' = students d)
   \<and> (type \<in> set course_types \<and> body_of B gw teacherId type = Some body
      \<and> validator_of type r = None
      \<and> gw i FindStudent = None \<and> gw i FindCourse = None \<and> gw i CreateCourse = None
      \<and> students d (str r ''studentId'') = Some st \<and> courses d (str r ''courseId'') = None
    \<longrightarrow> body i r d = body i r (d\<lparr>courses := (courses d)
            (str r ''courseId'' \<mapsto> placeholder_course (str r ''courseId'') st)\<rparr>)
        \<and> courses (fst (body i r d)) (str r ''courseId'')
            = Some (placeholder_course (str r ''courseId'') st))"
proof (intro conjI impI)
  assume "type \<in> set non_student_types \<and> body_of B gw teacherId type = Some body
      \<and> validator_of type r = None \<and> gw i FindStudent = None
      \<and> students (store p) (str r ''studentId'') = None"
  then show "step body i r p =
          p\<lparr>errors := errors p @
               [row_message (processed p) (''Student '' @ str r ''studentId'' @ '' not found'')]\<rparr>"
    using not_found_step [of type B gw teacherId body r i p] by (elim conjE)
next
  assume "POST B gw uid upload (Some type) d = (response, d')
      \<and> type \<in> set non_student_types"
  then show "students d' = students d"
    using POST_non_student_students [of B gw uid upload type d response d'] by (elim conjE)
next
  assume h: "type \<in> set course_types \<and> body_of B gw teacherId type = Some body
      \<and> validator_of type r = None
      \<and> gw i FindStudent = None \<and> gw i FindCourse = None \<and> gw i CreateCourse = None
      \<and> students d (str r ''studentId'') = Some st \<and> courses d (str r ''courseId'') = None"
  then have both: "body i r d = body i r (d\<lparr>courses := (courses d)
            (str r ''courseId'' \<mapsto> placeholder_course (str r ''courseId'') st)\<rparr>)
        \<and> courses (fst (body i r d)) (str r ''courseId'')
            = Some (placeholder_course (str r ''courseId'') st)"
    using course_created_pass [of type B gw teacherId body r i d st] by (elim conjE)
  from both show "body i r d = body i r (d\<lparr>courses := (courses d)
            (str r ''courseId'' \<mapsto> placeholder_course (str r ''courseId'') st)\<rparr>)"
    by (rule conjunct1)
  from both show "courses (fst (body i r d)) (str r ''courseId'')
            = Some (placeholder_course (str r ''courseId'') st)"
    by (rule conjunct2)
qed

theorem student_must_exist_witness:
  "errors (step (fees_pass sample_builtins no_faults) 0 fee_row
             \<lparr>store = one_student_db, errors = [], processed = 0\<rparr>)
     = [''Row 1: Student S9 not found'']
   \<and> processed (step (fees_pass sample_builtins no_faults) 0 fee_row
             \<lparr>store = one_student_db, errors = [], processed = 0\<rparr>) = 0
   \<and> students (snd (POST sample_builtins no_faults (Some ''T1'')
         (Some (''studentId,dueDate,status,dueMonths'' @ [nl] @ ''S9,2024-04-01,Pending,2''))
         (Some ''fees'') one_student_db)) ''S9'' = None
   \<and> courses (fst (backlogs_pass no_faults 0 backlog_row one_student_db)) ''C1''
     = Some \<lparr>cs_name = ''Course C1'', cs_code = ''C1'', cs_semester = 1,
             cs_department = ''General''\<rparr>
   \<and> snd (snd (backlogs_pass no_faults 0 backlog_row one_student_db))
   \<and> fst (POST sample_builtins no_faults (Some ''T1'')
         (Some (''studentId,dueDate,status,dueMonths'' @ [nl] @ ''S9,2024-04-01,Pending,2''))
         (Some ''fees'') one_student_db)
     = Success_response 0 1 [''Row 1: Student S9 not found'']"
proof -
  let ?p = "\<lparr>store = one_student_db, errors = [], processed = 0\<rparr>"
  let ?csv = "''studentId,dueDate,status,dueMonths'' @ [nl] @ ''S9,2024-04-01,Pending,2''"
  let ?post = "POST sample_builtins no_faults (Some ''T1'') (Some ?csv) (Some ''fees'') one_student_db"
  let ?s1 = "\<lparr>st_name = ''Alice'', st_email = ''a@x.com'', st_phone = None, st_dob = 0,
                 st_department = None, st_currentSemester = 3, st_batchId = None,
                 st_teacherId = Some ''T0'', st_parentName = None, st_parentEmail = None,
                 st_parentPhone = None, st_address = None\<rparr>"
  have fees: "''fees'' \<in> set non_student_types" by code_simp
  have body: "body_of sample_builtins no_faults ''T1'' ''fees'' = Some (fees_pass sample_builtins no_faults)"
    by (rule body_of_fees)
  have valid: "validator_of ''fees'' fee_row = None" by code_simp
  have find: "no_faults 0 FindStudent = None" "no_faults 0 FindCourse = None"
    "no_faults 0 CreateCourse = None"
    by (simp_all add: no_faults_def)
  have none: "students (store ?p) (str fee_row ''studentId'') = None" by code_simp
  have "step (fees_pass sample_builtins no_faults) 0 fee_row ?p =
          ?p\<lparr>errors := errors ?p @
               [row_message (processed ?p) (''Student '' @ str fee_row ''studentId'' @ '' not found'')]\<rparr>"
    using student_must_exist [where type = "''fees''" and B = sample_builtins and gw = no_faults
        and teacherId = "''T1''" and body = "fees_pass sample_builtins no_faults" and r = fee_row
        and i = 0 and p = ?p, THEN conjunct1] fees body valid find(1) none
    by blast
  moreover have "row_message 0 (''Student '' @ str fee_row ''studentId'' @ '' not found'')
                 = ''Row 1: Student S9 not found''" by code_simp
  ultimately have c1: "errors (step (fees_pass sample_builtins no_faults) 0 fee_row ?p)
                         = [''Row 1: Student S9 not found'']"
    and c2: "processed (step (fees_pass sample_builtins no_faults) 0 fee_row ?p) = 0"
    by simp_all
  have post: "?post = (fst ?post, snd ?post)" by simp
  have "students (snd ?post) = students one_student_db"
    using student_must_exist [where type = "''fees''" and B = sample_builtins and gw = no_faults
        and uid = "Some ''T1''" and upload = "Some ?csv" and d = one_student_db
        and response = "fst ?post" and d' = "snd ?post", THEN conjunct2, THEN conjunct1]
      post fees by blast
  moreover have "students one_student_db ''S9'' = None" by code_simp
  ultimately have c3: "students (snd ?post) ''S9'' = None" by simp
  have bl: "''backlogs'' \<in> set course_types" by code_simp
  have bbody: "body_of sample_builtins no_faults ''T1'' ''backlogs'' = Some (backlogs_pass no_faults)"
    by (rule body_of_backlogs)
  have bvalid: "validator_of ''backlogs'' backlog_row = None" by code_simp
  have st: "students one_student_db (str backlog_row ''studentId'') = Some ?s1" by code_simp
  have nocourse: "courses one_student_db (str backlog_row ''courseId'') = None" by code_simp
  have "courses (fst (backlogs_pass no_faults 0 backlog_row one_student_db)) (str backlog_row ''courseId'')
            = Some (placeholder_course (str backlog_row ''courseId'') ?s1)"
    using student_must_exist [where type = "''backlogs''" and B = sample_builtins and gw = no_faults
        and teacherId = "''T1''" and body = "backlogs_pass no_faults" and r = backlog_row
        and i = 0 and d = one_student_db and st = ?s1, THEN conjunct2, THEN conjunct2]
      bl bbody bvalid find st nocourse
    by blast
  moreover have "str backlog_row ''courseId'' = ''C1''" by code_simp
  moreover have "placeholder_course ''C1'' ?s1
      = \<lparr>cs_name = ''Course C1'', cs_code = ''C1'', cs_semester = 1, cs_department = ''General''\<rparr>"
    by code_simp
  ultimately have c4: "courses (fst (backlogs_pass no_faults 0 backlog_row one_student_db)) ''C1''
     = Some \<lparr>cs_name = ''Course C1'', cs_code = ''C1'', cs_semester = 1,
             cs_department = ''General''\<rparr>"
    by simp
  have c5: "snd (snd (backlogs_pass no_faults 0 backlog_row one_student_db))" by code_simp
  have c6: "fst ?post = Success_response 0 1 [''Row 1: Student S9 not found'']" by code_simp
  show ?thesis using c1 c2 c3 c4 c5 c6 by (intro conjI)
qed

lemma resolve_batch_lookup_throws:
  "present r ''batchId'' \<Longrightarrow> gw i FindBatch = Some m \<Longrightarrow>
   resolve_batch gw i r d
     = (d, None, [''Could not create/find batch '' @ str r ''batchId'' @ '': '' @ m])"
  by (simp add: resolve_batch_def)

lemma resolve_batch_create_throws:
  assumes "present r ''batchId''" "gw i FindBatch = None" "batches d (str r ''batchId'') = None"
    and "match_batchId (str r ''batchId'') = Some (dept, yearStr, sect)"
    and "gw i FindCourse = None" "gw i CreateCourse = None" "gw i CreateBatch = Some m"
  shows "\<exists>d1. resolve_batch gw i r d
           = (d1, None, [''Could not create/find batch '' @ str r ''batchId'' @ '': '' @ m])
         \<and> batches d1 = batches d"
  using assms by (auto simp: resolve_batch_def Let_def split: option.splits)

lemma upsert_student_ok:
  assumes "gw i FindStudent = None" "gw i UpdateStudent = None" "gw i CreateStudent = None"
  shows "\<exists>d2 s'. upsert_student gw teacherId i r dobDate semester finalBatchId d = Inr d2
           \<and> students d2 (str r ''studentId'') = Some s' \<and> st_batchId s' = finalBatchId"
  using assms by (auto simp: upsert_student_def Let_def split: option.splits)

lemma resolve_batch_error_null:
  "resolve_batch gw i r d = (d1, finalBatchId, batchErrors) \<Longrightarrow> batchErrors \<noteq> [] \<Longrightarrow>
   finalBatchId = None"
  by (auto simp: resolve_batch_def Let_def split: option.splits if_splits sum.splits prod.splits)

lemma students_pass_batch_error:
  assumes valid: "validateStudentRow r = None"
    and dob: "newDate B (str r ''dob'') = Date dobDate"
    and sem: "parseInt (str r ''currentSemester'') = Some semester" "1 \<le> semester" "semester \<le> 8"
    and rb: "resolve_batch gw i r d = (d1, finalBatchId, [batchError])"
    and ok: "gw i FindStudent = None" "gw i UpdateStudent = None" "gw i CreateStudent = None"
  shows "\<exists>d2 s'. students_pass B gw teacherId i r d = (d2, [batchError], True)
           \<and> students d2 (str r ''studentId'') = Some s' \<and> st_batchId s' = None"
proof -
  from resolve_batch_error_null [OF rb] have null: "finalBatchId = None" by simp
  from upsert_student_ok [where gw = gw and i = i and teacherId = teacherId and r = r
      and dobDate = dobDate and semester = semester and finalBatchId = finalBatchId and d = d1, OF ok]
  obtain d2 s' where up: "upsert_student gw teacherId i r dobDate semester finalBatchId d1 = Inr d2"
    and s': "students d2 (str r ''studentId'') = Some s'" "st_batchId s' = finalBatchId"
    by blast
  have "students_pass B gw teacherId i r d = (d2, [batchError], True)"
    unfolding students_pass_def using valid dob sem rb up by simp
  with s' null show ?thesis by blast
qed

text \<open>
  Claim C9. In a students upload, a batch lookup that throws, and likewise a batch creation
  that throws, is caught by the inner handler: it pushes \<open>Could not create/find batch ...\<close>
  and leaves \<open>finalBatchId\<close> null. The row is not skipped: when its date of birth and
  semester are valid and the student calls do not throw, the student is written with no
  batch, \<open>processed\<close> is incremented, and the only entry added is the one for the batch. So
  one row adds both an error entry and a processed row, and a response can report
  \<open>processed = total\<close> with a non-empty error list.
\<close>

theorem batch_failure_not_skipped:
  "(present r ''batchId'' \<and> gw i FindBatch = Some m
    \<longrightarrow> resolve_batch gw i r d
          = (d, None, [''Could not create/find batch '' @ str r ''batchId'' @ '': '' @ m]))
   \<and> (present r ''batchId'' \<and> gw i FindBatch = None \<and> batches d (str r ''batchId'') = None
      \<and> match_batchId (str r ''batchId'') = Some (dept, yearStr, sect)
      \<and> gw i FindCourse = None \<and> gw i CreateCourse = None \<and> gw i CreateBatch = Some m
    \<longrightarrow> (\<exists>d1. resolve_batch gw i r d
                 = (d1, None, [''Could not create/find batch '' @ str r ''batchId'' @ '': '' @ m])
               \<and> batches d1 = batches d))
   \<and> (validateStudentRow r = None \<and> newDate B (str r ''dob'') = Date dobDate
      \<and> parseInt (str r ''currentSemester'') = Some semester \<and> 1 \<le> semester \<and> semester \<le> 8
      \<and> resolve_batch gw i r (store p) = (afterBatch, finalBatchId, [batchError])
      \<and> gw i FindStudent = None \<and> gw i UpdateStudent = None \<and> gw i CreateStudent = None
    \<longrightarrow> (\<exists>d2 s'. step (students_pass B gw teacherId) i r p
                    = \<lparr>store = d2,
                       errors = errors p @ [row_message (processed p) batchError],
                       processed = processed p + 1\<rparr>
                  \<and> students d2 (str r ''studentId'') = Some s' \<and> st_batchId s' = None))"
proof (intro conjI impI)
  assume "present r ''batchId'' \<and> gw i FindBatch = Some m"
  then show "resolve_batch gw i r d
          = (d, None, [''Could not create/find batch '' @ str r ''batchId'' @ '': '' @ m])"
    using resolve_batch_lookup_throws [of r gw i m d] by (elim conjE)
next
  assume "present r ''batchId'' \<and> gw i FindBatch = None \<and> batches d (str r ''batchId'') = None
      \<and> match_batchId (str r ''batchId'') = Some (dept, yearStr, sect)
      \<and> gw i FindCourse = None \<and> gw i CreateCourse = None \<and> gw i CreateBatch = Some m"
  then show "\<exists>d1. resolve_batch gw i r d
                 = (d1, None, [''Could not create/find batch '' @ str r ''batchId'' @ '': '' @ m])
               \<and> batches d1 = batches d"
    using resolve_batch_create_throws [of r gw i d dept yearStr sect m] by (elim conjE)
next
  assume "validateStudentRow r = None \<and> newDate B (str r ''dob'') = Date dobDate
      \<and> parseInt (str r ''currentSemester'') = Some semester \<and> 1 \<le> semester \<and> semester \<le> 8
      \<and> resolve_batch gw i r (store p) = (afterBatch, finalBatchId, [batchError])
      \<and> gw i FindStudent = None \<and> gw i UpdateStudent = None \<and> gw i CreateStudent = None"
  then have "\<exists>d2 s'. students_pass B gw teacherId i r (store p) = (d2, [batchError], True)
           \<and> students d2 (str r ''studentId'') = Some s' \<and> st_batchId s' = None"
    using students_pass_batch_error [of r B dobDate semester gw i "store p" afterBatch finalBatchId
        batchError teacherId] by (elim conjE)
  then obtain d2 s' where
    pass: "students_pass B gw teacherId i r (store p) = (d2, [batchError], True)"
    and s': "students d2 (str r ''studentId'') = Some s'" "st_batchId s' = None"
    by blast
  have "step (students_pass B gw teacherId) i r p
          = \<lparr>store = d2, errors = errors p @ [row_message (processed p) batchError],
             processed = processed p + 1\<rparr>"
    unfolding step_def pass by simp
  with s' show "\<exists>d2 s'. step (students_pass B gw teacherId) i r p
                    = \<lparr>store = d2,
                       errors = errors p @ [row_message (processed p) batchError],
                       processed = processed p + 1\<rparr>
                  \<and> students d2 (str r ''studentId'') = Some s' \<and> st_batchId s' = None"
    by blast
qed


theorem batch_failure_not_skipped_witness:
  "errors (step (students_pass sample_builtins batch_lookup_fails ''T1'') 0
             (student_row ''S3'' (Some ''CSE2024B''))
             \<lparr>store = one_student_db, errors = [], processed = 0\<rparr>)
     = [''Row 1: Could not create/find batch CSE2024B: connection lost'']
   \<and> processed (step (students_pass sample_builtins batch_lookup_fails ''T1'') 0
             (student_row ''S3'' (Some ''CSE2024B''))
             \<lparr>store = one_student_db, errors = [], processed = 0\<rparr>) = 1
   \<and> map_option st_batchId
        (students (store (step (students_pass sample_builtins batch_lookup_fails ''T1'') 0
             (student_row ''S3'' (Some ''CSE2024B''))
             \<lparr>store = one_student_db, errors = [], processed = 0\<rparr>)) ''S3'') = Some None
   \<and> snd (resolve_batch batch_create_fails 0 (student_row ''S3'' (Some ''CSE2024B'')) one_student_db)
     = (None, [''Could not create/find batch CSE2024B: unique constraint''])
   \<and> fst (POST sample_builtins batch_lookup_fails (Some ''T1'')
         (Some (''studentId,name,email,dob,currentSemester,batchId'' @ [nl]
                @ ''S3,Bob,b@x.com,2000-01-01,3,CSE2024B''))
         (Some ''students'') one_student_db)
     = Success_response 1 1 [''Row 1: Could not create/find batch CSE2024B: connection lost'']"
proof -
  let ?B = sample_builtins
  let ?r = "student_row ''S3'' (Some ''CSE2024B'')"
  let ?p = "\<lparr>store = one_student_db, errors = [], processed = 0\<rparr>"
  let ?step = "step (students_pass ?B batch_lookup_fails ''T1'') 0 ?r ?p"
  let ?e = "''Could not create/find batch '' @ str ?r ''batchId'' @ '': '' @ ''connection lost''"
  have pres: "present ?r ''batchId''" by code_simp
  have fault: "batch_lookup_fails 0 FindBatch = Some ''connection lost''"
    by (simp add: batch_lookup_fails_def)
  have ok: "batch_lookup_fails 0 FindStudent = None" "batch_lookup_fails 0 UpdateStudent = None"
    "batch_lookup_fails 0 CreateStudent = None"
    by (simp_all add: batch_lookup_fails_def)
  have rb: "resolve_batch batch_lookup_fails 0 ?r (store ?p) = (store ?p, None, [?e])"
    using batch_failure_not_skipped [where r = ?r and gw = batch_lookup_fails and i = 0
        and m = "''connection lost''" and d = "store ?p", THEN conjunct1] pres fault
    by blast
  have valid: "validateStudentRow ?r = None" by code_simp
  have dob: "newDate ?B (str ?r ''dob'') = Date 946684800000" by code_simp
  have sem: "parseInt (str ?r ''currentSemester'') = Some 3" by code_simp
  have range: "(1::int) \<le> 3" "(3::int) \<le> 8" by simp_all
  from batch_failure_not_skipped [where r = ?r and gw = batch_lookup_fails and i = 0
        and B = ?B and dobDate = 946684800000 and semester = 3 and p = ?p and afterBatch = "store ?p"
        and finalBatchId = None and batchError = ?e and teacherId = "''T1''",
        THEN conjunct2, THEN conjunct2] valid dob sem range rb ok
  obtain d2 s' where st: "?step = \<lparr>store = d2,
                       errors = errors ?p @ [row_message (processed ?p) ?e],
                       processed = processed ?p + 1\<rparr>"
    and s': "students d2 (str ?r ''studentId'') = Some s'" "st_batchId s' = None"
    by blast
  have msg: "row_message 0 ?e = ''Row 1: Could not create/find batch CSE2024B: connection lost''"
    by code_simp
  have sid: "str ?r ''studentId'' = ''S3''" by code_simp
  from st msg have c1: "errors ?step
      = [''Row 1: Could not create/find batch CSE2024B: connection lost'']"
    by simp
  from st have c2: "processed ?step = 1" by simp
  from st s' have c3: "map_option st_batchId (students (store ?step) ''S3'') = Some None"
    by (simp add: sid)
  have h2: "batch_create_fails 0 FindBatch = None" "batch_create_fails 0 FindCourse = None"
    "batch_create_fails 0 CreateCourse = None"
    "batch_create_fails 0 CreateBatch = Some ''unique constraint''"
    by (simp_all add: batch_create_fails_def)
  have nobatch: "batches one_student_db (str ?r ''batchId'') = None" by code_simp
  have mt: "match_batchId (str ?r ''batchId'') = Some (''CSE'', ''2024'', ''B'')" by code_simp
  from batch_failure_not_skipped [where r = ?r and gw = batch_create_fails and i = 0
        and m = "''unique constraint''" and d = one_student_db and dept = "''CSE''"
        and yearStr = "''2024''" and sect = "''B''", THEN conjunct2, THEN conjunct1]
    pres h2 nobatch mt
  obtain d1 where "resolve_batch batch_create_fails 0 ?r one_student_db
      = (d1, None, [''Could not create/find batch '' @ str ?r ''batchId'' @ '': '' @ ''unique constraint''])"
    by blast
  moreover have "''Could not create/find batch '' @ str ?r ''batchId'' @ '': '' @ ''unique constraint''
        = ''Could not create/find batch CSE2024B: unique constraint''" by code_simp
  ultimately have c4: "snd (resolve_batch batch_create_fails 0 ?r one_student_db)
     = (None, [''Could not create/find batch CSE2024B: unique constraint''])"
    by simp
  have c5: "fst (POST ?B batch_lookup_fails (Some ''T1'')
         (Some (''studentId,name,email,dob,currentSemester,batchId'' @ [nl]
                @ ''S3,Bob,b@x.com,2000-01-01,3,CSE2024B''))
         (Some ''students'') one_student_db)
     = Success_response 1 1 [''Row 1: Could not create/find batch CSE2024B: connection lost'']"
    by code_simp
  show ?thesis using c1 c2 c3 c4 c5 by (intro conjI)
qed

text \<open>
  Claim C1. The number printed in an error entry is \<open>processed + 1\<close>, the count of the rows
  that succeeded so far plus one, and a failed row leaves \<open>processed\<close> as it was. In a
  students upload of two rows that both lack a name, whatever the runtime, the gateway and
  the store, the second row of the file is reported as \<open>Row 1\<close>, like the first.
\<close>

theorem students_two_failed_rows:
  "fst (POST B gw (Some ''T1'')
         (Some (''studentId,name,email,dob,currentSemester'' @ [nl]
                @ ''S1,,a@x.com,2000-01-01,3'' @ [nl]
                @ ''S2,,b@x.com,2000-01-01,3''))
         (Some ''students'') d)
   = Success_response 0 2 [''Row 1: Missing name'', ''Row 1: Missing name'']"
  by code_simp

text \<open>
  Claim C2. The fellowships loop (like the projects and phd loops) passes \<open>parseFloat\<close>,
  \<open>parseInt\<close> and \<open>new Date\<close> of the fields to the \<open>create\<close> call unchecked. A row with
  amount \<open>abc\<close>, duration \<open>long\<close> and start date \<open>notadate\<close> for an existing student, on a
  gateway that does not throw, is counted as processed with no error entry, and a
  fellowship with amount \<open>NaN\<close>, duration \<open>NaN\<close> and an invalid start date is created.
  A projects row and a phd row with start date \<open>notadate\<close> are stored the same way.
\<close>

theorem fellowship_unchecked_values:
  "fst (POST sample_builtins no_faults (Some ''T1'')
         (Some (''studentId,type,amount,duration,startDate'' @ [nl]
                @ ''S1,JRF,abc,long,notadate''))
         (Some ''fellowships'') one_student_db)
     = Success_response 1 1 []
   \<and> fellowships (snd (POST sample_builtins no_faults (Some ''T1'')
         (Some (''studentId,type,amount,duration,startDate'' @ [nl]
                @ ''S1,JRF,abc,long,notadate''))
         (Some ''fellowships'') one_student_db))
     = [\<lparr>fw_type = ''JRF'', fw_amount = NaN, fw_duration = None, fw_studentId = ''S1'',
         fw_supervisorId = ''T1'', fw_startDate = InvalidDate, fw_endDate = None,
         fw_status = ''Active''\<rparr>]
   \<and> fst (POST sample_builtins no_faults (Some ''T1'')
         (Some (''studentId,title,startDate'' @ [nl] @ ''S1,Survey,notadate''))
         (Some ''projects'') one_student_db)
     = Success_response 1 1 []
   \<and> map pj_startDate (projects (snd (POST sample_builtins no_faults (Some ''T1'')
         (Some (''studentId,title,startDate'' @ [nl] @ ''S1,Survey,notadate''))
         (Some ''projects'') one_student_db)))
     = [InvalidDate]
   \<and> fst (POST sample_builtins no_faults (Some ''T1'')
         (Some (''studentId,title,researchArea,startDate'' @ [nl] @ ''S1,Thesis,Logic,notadate''))
         (Some ''phd'') one_student_db)
     = Success_response 1 1 []
   \<and> map ph_startDate (phdSupervisions (snd (POST sample_builtins no_faults (Some ''T1'')
         (Some (''studentId,title,researchArea,startDate'' @ [nl] @ ''S1,Thesis,Logic,notadate''))
         (Some ''phd'') one_student_db)))
     = [InvalidDate]"
  by code_simp

end
